theory Spec2Isabelle
  imports Complex_Main
begin

unbundle bit_operations_syntax

section \<open>JavaScript numbers and typed arrays\<close>

text \<open>
  The engine of \<^verbatim>\<open>src/lib/scripts/actvolume/actvol.js\<close> computes with JavaScript
  numbers. They are modelled as the values of IEEE arithmetic: a finite value, the
  negative zero, the two infinities and NaN. \<open>Fin 0\<close> is the positive zero \<open>+0\<close> and
  \<open>NZero\<close> the negative zero \<open>-0\<close>: the two are equal in every comparison and differ
  as divisors and as factors. Finite arithmetic is exact: rounding to double or to
  the 32-bit elements of a \<^verbatim>\<open>Float32Array\<close>, and overflow and underflow of finite
  results, are not modelled. Reading a typed array outside its range yields
  \<^verbatim>\<open>undefined\<close>; every use the program makes of such a value converts it to NaN
  (arithmetic, comparison, \<^verbatim>\<open>Math.floor\<close>) or uses it as a property key that is no
  element index, exactly as NaN, so the read is modelled as NaN.
\<close>

datatype jsnum = Fin real | NZero | PInf | NInf | NaN

datatype jserror = TypeError | RangeError

text \<open>
  The sign bit of a number (of no use for NaN), whether it is a zero, an infinity or
  finite, its real value when it is finite, and the zero and the infinity of a given
  sign.
\<close>

definition is_negative :: "jsnum \<Rightarrow> bool" where
  "is_negative x =
     (case x of Fin a \<Rightarrow> a < 0 | NZero \<Rightarrow> True | PInf \<Rightarrow> False | NInf \<Rightarrow> True | NaN \<Rightarrow> False)"

definition is_zero :: "jsnum \<Rightarrow> bool" where
  "is_zero x = (x = Fin 0 \<or> x = NZero)"

definition is_inf :: "jsnum \<Rightarrow> bool" where
  "is_inf x = (x = PInf \<or> x = NInf)"

definition is_finite :: "jsnum \<Rightarrow> bool" where
  "is_finite x = (case x of Fin a \<Rightarrow> True | NZero \<Rightarrow> True | _ \<Rightarrow> False)"

definition js_val :: "jsnum \<Rightarrow> real" where
  "js_val x = (case x of Fin a \<Rightarrow> a | _ \<Rightarrow> 0)"

definition signed_zero :: "bool \<Rightarrow> jsnum" where
  "signed_zero negative = (if negative then NZero else Fin 0)"

definition signed_inf :: "bool \<Rightarrow> jsnum" where
  "signed_inf negative = (if negative then NInf else PInf)"

fun js_neg :: "jsnum \<Rightarrow> jsnum" where
  "js_neg (Fin a) = (if a = 0 then NZero else Fin (- a))"
| "js_neg NZero = Fin 0"
| "js_neg PInf = NInf"
| "js_neg NInf = PInf"
| "js_neg NaN = NaN"

text \<open>
  An exact sum that is zero is \<open>+0\<close> (rounding to nearest), unless both summands are
  \<open>-0\<close>.
\<close>

fun js_add :: "jsnum \<Rightarrow> jsnum \<Rightarrow> jsnum" where
  "js_add (Fin a) (Fin b) = Fin (a + b)"
| "js_add NZero NZero = NZero"
| "js_add NZero (Fin b) = Fin b"
| "js_add (Fin a) NZero = Fin a"
| "js_add NaN _ = NaN"
| "js_add _ NaN = NaN"
| "js_add PInf NInf = NaN"
| "js_add NInf PInf = NaN"
| "js_add PInf _ = PInf"
| "js_add _ PInf = PInf"
| "js_add NInf _ = NInf"
| "js_add _ NInf = NInf"

definition js_sub :: "jsnum \<Rightarrow> jsnum \<Rightarrow> jsnum" where
  "js_sub a b = js_add a (js_neg b)"

text \<open>
  A product or quotient is negative exactly when one operand is; zero times infinity,
  zero by zero and infinity by infinity are NaN.
\<close>

definition js_mul :: "jsnum \<Rightarrow> jsnum \<Rightarrow> jsnum" where
  "js_mul x y =
     (let negative = (is_negative x \<noteq> is_negative y) in
      if x = NaN \<or> y = NaN then NaN
      else if is_inf x \<or> is_inf y
        then (if is_zero x \<or> is_zero y then NaN else signed_inf negative)
      else if is_zero x \<or> is_zero y then signed_zero negative
      else Fin (js_val x * js_val y))"

definition js_div :: "jsnum \<Rightarrow> jsnum \<Rightarrow> jsnum" where
  "js_div x y =
     (let negative = (is_negative x \<noteq> is_negative y) in
      if x = NaN \<or> y = NaN then NaN
      else if is_inf x then (if is_inf y then NaN else signed_inf negative)
      else if is_inf y then signed_zero negative
      else if is_zero y then (if is_zero x then NaN else signed_inf negative)
      else if is_zero x then signed_zero negative
      else Fin (js_val x / js_val y))"

text \<open>
  The comparisons \<^verbatim>\<open><\<close>, \<^verbatim>\<open>>\<close>, \<^verbatim>\<open><=\<close>, \<^verbatim>\<open>>=\<close>: false whenever an operand is NaN;
  the two zeros compare as equal.
\<close>

definition js_lt :: "jsnum \<Rightarrow> jsnum \<Rightarrow> bool" where
  "js_lt x y =
     (if x = NaN \<or> y = NaN then False
      else if x = PInf \<or> y = NInf then False
      else if x = NInf \<or> y = PInf then True
      else js_val x < js_val y)"

definition js_gt :: "jsnum \<Rightarrow> jsnum \<Rightarrow> bool" where
  "js_gt a b = js_lt b a"

definition js_le :: "jsnum \<Rightarrow> jsnum \<Rightarrow> bool" where
  "js_le x y =
     (if x = NaN \<or> y = NaN then False
      else if x = NInf \<or> y = PInf then True
      else if x = PInf \<or> y = NInf then False
      else js_val x \<le> js_val y)"

definition js_ge :: "jsnum \<Rightarrow> jsnum \<Rightarrow> bool" where
  "js_ge a b = js_le b a"

text \<open>\<^verbatim>\<open>Math.floor\<close> and \<^verbatim>\<open>Math.exp\<close>; the floor of \<open>-0\<close> is \<open>-0\<close>.\<close>

fun js_floor :: "jsnum \<Rightarrow> jsnum" where
  "js_floor (Fin a) = Fin (of_int \<lfloor>a\<rfloor>)"
| "js_floor x = x"

fun js_exp :: "jsnum \<Rightarrow> jsnum" where
  "js_exp (Fin a) = Fin (exp a)"
| "js_exp NZero = Fin 1"
| "js_exp PInf = PInf"
| "js_exp NInf = Fin 0"
| "js_exp NaN = NaN"

text \<open>
  Typed arrays (\<^verbatim>\<open>Float32Array\<close>, \<^verbatim>\<open>Int32Array\<close>) are lists. A JavaScript number
  \<open>k\<close> addresses an element only when it is an integer within the array's range: a
  read elsewhere yields \<^verbatim>\<open>undefined\<close> (here NaN), a write elsewhere changes no
  element.
\<close>

definition is_index :: "real \<Rightarrow> nat \<Rightarrow> bool" where
  "is_index k n = (of_int \<lfloor>k\<rfloor> = k \<and> 0 \<le> k \<and> k < real n)"

definition ta_get :: "jsnum list \<Rightarrow> real \<Rightarrow> jsnum" where
  "ta_get a k = (if is_index k (length a) then a ! nat \<lfloor>k\<rfloor> else NaN)"

definition ta_set :: "jsnum list \<Rightarrow> real \<Rightarrow> jsnum \<Rightarrow> jsnum list" where
  "ta_set a k v = (if is_index k (length a) then a[nat \<lfloor>k\<rfloor> := v] else a)"

text \<open>
  The loops of the source. \<open>for_int lo hi body\<close> is
  \<^verbatim>\<open>for (i = lo; i < hi; i++) body\<close> on integers; \<open>for_incl lo hi body\<close> is the
  same with \<^verbatim>\<open>i <= hi\<close>; \<open>for_real lo hi body\<close> is the first loop on numbers that
  need not be integers (\<open>lo\<close>, \<open>lo + 1\<close>, ... while below \<open>hi\<close>).
\<close>

definition for_int :: "int \<Rightarrow> int \<Rightarrow> (int \<Rightarrow> 'a \<Rightarrow> 'a) \<Rightarrow> 'a \<Rightarrow> 'a" where
  "for_int lo hi body st = fold body [lo..hi - 1] st"

definition for_incl :: "int \<Rightarrow> int \<Rightarrow> (int \<Rightarrow> 'a \<Rightarrow> 'a) \<Rightarrow> 'a \<Rightarrow> 'a" where
  "for_incl lo hi body st = fold body [lo..hi] st"

definition real_range :: "real \<Rightarrow> real \<Rightarrow> real list" where
  "real_range lo hi = map (\<lambda>k. lo + real k) [0..<nat \<lceil>hi - lo\<rceil>]"

definition for_real :: "real \<Rightarrow> real \<Rightarrow> (real \<Rightarrow> 'a \<Rightarrow> 'a) \<Rightarrow> 'a \<Rightarrow> 'a" where
  "for_real lo hi body st = fold body (real_range lo hi) st"

text \<open>Sequencing of steps that may throw.\<close>

definition bind_res :: "jserror + 'a \<Rightarrow> ('a \<Rightarrow> jserror + 'b) \<Rightarrow> jserror + 'b" where
  "bind_res r f = (case r of Inl e \<Rightarrow> Inl e | Inr x \<Rightarrow> f x)"

section \<open>The engine: class ActiveVolume\<close>

definition ACT_VOL_NUM_SMOOTH_STAGES :: int where
  "ACT_VOL_NUM_SMOOTH_STAGES = 18"

definition AV_NUM_COLORS :: int where
  "AV_NUM_COLORS = 256"

datatype av_state =
  AV_STATE_NA | AV_STATE_NOT_STARTED | AV_STATE_PREPARE_GAUSS
  | AV_STATE_PREPARE_UNIFORMITY | AV_STATE_UPDATE_GEO | AV_STATE_FINISHED

definition AV_METHOD_NORMALS :: int where "AV_METHOD_NORMALS = 1"
definition AV_METHOD_UNIFORMITY :: int where "AV_METHOD_UNIFORMITY = 2"
definition AV_METHOD_COLOR_KOEFS :: int where "AV_METHOD_COLOR_KOEFS = 4"
definition AV_METHOD_ALL :: int where "AV_METHOD_ALL = 65535"

text \<open>
  The fields of an \<^verbatim>\<open>ActiveVolume\<close> object. A buffer that can be \<^verbatim>\<open>null\<close> (or, for
  \<open>m_gaussMatrix\<close>, not yet assigned) is an option; using it while \<open>None\<close> throws a
  TypeError. The dimensions and stage counters are integers; the histogram is an
  \<^verbatim>\<open>Int32Array\<close>, the two colour tables are \<^verbatim>\<open>Float32Array\<close>s. The field
  \<^verbatim>\<open>m_lapSmoother\<close> is set to \<^verbatim>\<open>null\<close> by the constructor and never used.
\<close>

record actvol =
  m_state :: av_state
  m_pixelsSrc :: "jsnum list option"
  m_xDim :: int
  m_yDim :: int
  m_zDim :: int
  m_imageGauss :: "jsnum list option"
  m_imageUniformity :: "jsnum list option"
  m_verticesNew :: "jsnum list option"
  m_imageSrc :: "jsnum list option"
  m_imageGrad :: "jsnum list option"
  m_gaussMatrix :: "jsnum list option"
  m_gaussStage :: int
  m_uniformityStage :: int
  m_geoStage :: int
  m_histogram :: "int list"
  m_colorProbability :: "jsnum list"
  m_colorKoefs :: "jsnum list"
  m_indexMinColor :: int

definition constructor :: actvol where
  "constructor =
     \<lparr> m_state = AV_STATE_NA, m_pixelsSrc = None, m_xDim = 0, m_yDim = 0, m_zDim = 0,
       m_imageGauss = None, m_imageUniformity = None, m_verticesNew = None,
       m_imageSrc = None, m_imageGrad = None, m_gaussMatrix = None,
       m_gaussStage = - 1, m_uniformityStage = - 1, m_geoStage = - 1,
       m_histogram = replicate 256 0,
       m_colorProbability = replicate 256 (Fin 0),
       m_colorKoefs = replicate 256 (Fin 0),
       m_indexMinColor = - 1 \<rparr>"

text \<open>
  \<^verbatim>\<open>new Float32Array(n)\<close>: zero-filled, of length \<open>n\<close>. A negative length throws a
  RangeError, and so does a length that is too large: the language refuses a buffer
  of more than \<open>2\<^sup>5\<^sup>3 - 1\<close> bytes, that is a length of \<open>2\<^sup>5\<^sup>1\<close> elements or more, and
  an engine refuses every length above a limit of its own. That limit is the
  parameter \<open>maxLength\<close> of the allocation and of every function that allocates a
  buffer whose length comes from its caller (the volume buffers and the vertex
  buffer). The buffers of fixed length, of 256 and of \<open>19\<^sup>3\<close> elements, are taken to
  be allocated.
\<close>

definition newFloat32Array :: "int \<Rightarrow> int \<Rightarrow> jserror + jsnum list" where
  "newFloat32Array maxLength n =
     (if n < 0 \<or> maxLength < n \<or> 2 ^ 51 \<le> n then Inl RangeError
      else Inr (replicate (nat n) (Fin 0)))"

text \<open>
  \<^verbatim>\<open>create(xDim, yDim, zDim, volTexSrc)\<close>: no check of the dimensions; the result is
  the returned status with the updated object, or the RangeError of an allocation.
\<close>

definition create :: "int \<Rightarrow> int \<Rightarrow> int \<Rightarrow> int \<Rightarrow> jsnum list \<Rightarrow> actvol \<Rightarrow> jserror + int \<times> actvol" where
  "create maxLength xDim yDim zDim volTexSrc s =
     (let s = s\<lparr>m_state := AV_STATE_NOT_STARTED, m_pixelsSrc := Some volTexSrc,
                m_xDim := xDim, m_yDim := yDim, m_zDim := zDim\<rparr>;
          numPixels = xDim * yDim * zDim
      in bind_res (newFloat32Array maxLength numPixels) (\<lambda>imageGauss.
         bind_res (newFloat32Array maxLength numPixels) (\<lambda>imageUniformity.
         Inr (1, s\<lparr>m_imageGauss := Some imageGauss,
                    m_imageUniformity := Some imageUniformity,
                    m_verticesNew := None\<rparr>))))"

text \<open>
  \<^verbatim>\<open>startImageSmooth()\<close>. The first loop writes both derived buffers and the second
  reads \<open>m_pixelsSrc\<close>, so each throws on its first iteration when such a buffer is
  \<^verbatim>\<open>null\<close>.
\<close>

definition startImageSmooth :: "int \<Rightarrow> actvol \<Rightarrow> jserror + actvol" where
  "startImageSmooth maxLength s =
     (let numPixels = m_xDim s * m_yDim s * m_zDim s in
      if 0 < numPixels \<and> (m_imageGauss s = None \<or> m_imageUniformity s = None)
      then Inl TypeError
      else
        let zero = (\<lambda>a. for_int 0 numPixels (\<lambda>i a. ta_set a (of_int i) (Fin 0)) a);
            s = s\<lparr>m_imageGauss := map_option zero (m_imageGauss s),
                   m_imageUniformity := map_option zero (m_imageUniformity s)\<rparr>
        in bind_res (newFloat32Array maxLength numPixels) (\<lambda>imageSrc.
           bind_res (newFloat32Array maxLength numPixels) (\<lambda>imageGrad.
           case m_pixelsSrc s of
             None \<Rightarrow>
               if 0 < numPixels then Inl TypeError
               else Inr (s\<lparr>m_imageSrc := Some imageSrc, m_imageGrad := Some imageGrad\<rparr>)
           | Some pixelsSrc \<Rightarrow>
               Inr (s\<lparr>m_imageSrc :=
                        Some (for_int 0 numPixels
                          (\<lambda>i a. ta_set a (of_int i) (ta_get pixelsSrc (of_int i))) imageSrc),
                      m_imageGrad :=
                        Some (for_int 0 numPixels
                          (\<lambda>i a. ta_set a (of_int i) (Fin 0)) imageGrad)\<rparr>))))"

definition stopImageSmooth :: "actvol \<Rightarrow> actvol" where
  "stopImageSmooth s = s\<lparr>m_imageGrad := None, m_imageSrc := None\<rparr>"

subsection \<open>Gaussian smoothing of a band of slices\<close>

text \<open>
  The first part of \<^verbatim>\<open>applyPartGaussSmooth\<close>, run when \<open>zStart = 0\<close>: the kernel is
  written into a fresh \<^verbatim>\<open>Float32Array\<close> of \<open>19\<^sup>3\<close> elements, element \<open>j\<close> after
  element \<open>j - 1\<close>, while \<open>wSum\<close> adds the weights up; the state of the three nested
  loops is the triple of the matrix, \<open>j\<close> and \<open>wSum\<close>.
\<close>

definition gaussWeight :: "int \<Rightarrow> jsnum \<Rightarrow> int \<Rightarrow> int \<Rightarrow> int \<Rightarrow> jsnum" where
  "gaussWeight rad koef dz dy dx =
     (let fz = js_div (Fin (of_int dz)) (Fin (of_int rad));
          fy = js_div (Fin (of_int dy)) (Fin (of_int rad));
          fx = js_div (Fin (of_int dx)) (Fin (of_int rad));
          dist2 = js_add (js_add (js_mul fx fx) (js_mul fy fy)) (js_mul fz fz)
      in js_exp (js_mul (js_mul (Fin (- 1)) dist2) koef))"

definition fillGaussMatrix :: "int \<Rightarrow> jsnum \<Rightarrow> jsnum list \<times> int \<times> jsnum" where
  "fillGaussMatrix rad koef =
     for_incl (- rad) rad (\<lambda>dz.
       for_incl (- rad) rad (\<lambda>dy.
         for_incl (- rad) rad (\<lambda>dx (m, j, wSum).
           let weight = gaussWeight rad koef dz dy dx
           in (ta_set m (of_int j) weight, j + 1, js_add wSum weight))))
       (replicate (19 * 19 * 19) (Fin 0), 0, Fin 0)"

definition gaussInit :: "int \<Rightarrow> real \<Rightarrow> actvol \<Rightarrow> jserror + actvol" where
  "gaussInit rad sigma s =
     (let dia = 1 + 2 * rad;
          koef = js_div (Fin 1) (Fin (3 * sigma * sigma));
          (m, j, wSum) = fillGaussMatrix rad koef;
          numGaussElems = dia * dia * dia;
          gScale = js_div (Fin 1) wSum;
          m = for_int 0 numGaussElems
                (\<lambda>j m. ta_set m (of_int j) (js_mul (ta_get m (of_int j)) gScale)) m;
          numPixels = m_xDim s * m_yDim s * m_zDim s
      in case (m_imageSrc s, m_imageGauss s) of
           (Some imageSrc, Some imageGauss) \<Rightarrow>
             Inr (s\<lparr>m_gaussMatrix := Some m,
                    m_imageGauss :=
                      Some (for_int 0 numPixels
                        (\<lambda>j a. ta_set a (of_int j) (ta_get imageSrc (of_int j))) imageGauss)\<rparr>)
         | _ \<Rightarrow>
             if 0 < numPixels then Inl TypeError else Inr (s\<lparr>m_gaussMatrix := Some m\<rparr>))"

text \<open>
  The weighted sum under the kernel footprint at the voxel \<open>(cx, cy, cz)\<close>: the three
  inner loops, whose state is the pair of \<open>sum\<close> and \<open>j\<close>. The samples come from
  \<open>m_pixelsSrc\<close>.
\<close>

definition gaussSum :: "jsnum list \<Rightarrow> jsnum list \<Rightarrow> int \<Rightarrow> int \<Rightarrow> int \<Rightarrow> int \<Rightarrow> int \<Rightarrow> int \<Rightarrow> jsnum" where
  "gaussSum gaussMatrix pixelsSrc xDim yDim rad cx cy cz =
     fst (for_incl (- rad) rad (\<lambda>dz.
            let z = cz + dz; zOff = z * xDim * yDim in
            for_incl (- rad) rad (\<lambda>dy.
              let y = cy + dy; yOff = y * xDim in
              for_incl (- rad) rad (\<lambda>dx (sum, j).
                let x = cx + dx;
                    weight = ta_get gaussMatrix (of_int j);
                    val = ta_get pixelsSrc (of_int (x + yOff + zOff))
                in (js_add sum (js_mul val weight), j + 1))))
          (Fin 0, 0 :: int))"

text \<open>
  The second part of \<^verbatim>\<open>applyPartGaussSmooth\<close>: the slices \<open>zs \<le> cz < ze\<close> of the
  interior. The body of the voxel loops uses \<open>m_gaussMatrix\<close> and \<open>m_pixelsSrc\<close>
  (when \<open>0 \<le> rad\<close>, so that the inner loops run) and then \<open>m_imageGauss\<close>; it throws
  at the first voxel when a buffer it uses is missing.
\<close>

definition gaussConvolve :: "int \<Rightarrow> int \<Rightarrow> int \<Rightarrow> actvol \<Rightarrow> jserror + actvol" where
  "gaussConvolve zStart zEnd rad s =
     (let zs = (if zStart > rad then zStart else rad);
          ze = (if zEnd < m_zDim s - rad then zEnd else m_zDim s - rad);
          someVoxel = (zs < ze \<and> rad < m_yDim s - rad \<and> rad < m_xDim s - rad)
      in if someVoxel \<and>
            ((0 \<le> rad \<and> (m_gaussMatrix s = None \<or> m_pixelsSrc s = None)) \<or>
             m_imageGauss s = None)
         then Inl TypeError
         else
           let gaussMatrix = (case m_gaussMatrix s of Some m \<Rightarrow> m | None \<Rightarrow> []);
               pixelsSrc = (case m_pixelsSrc s of Some p \<Rightarrow> p | None \<Rightarrow> [])
           in Inr (s\<lparr>m_imageGauss :=
                map_option
                  (for_int zs ze (\<lambda>cz.
                     let czOff = cz * m_xDim s * m_yDim s in
                     for_int rad (m_yDim s - rad) (\<lambda>cy.
                       let cyOff = cy * m_xDim s in
                       for_int rad (m_xDim s - rad) (\<lambda>cx a.
                         ta_set a (of_int (cx + cyOff + czOff))
                           (gaussSum gaussMatrix pixelsSrc (m_xDim s) (m_yDim s) rad cx cy cz)))))
                  (m_imageGauss s)\<rparr>))"

definition applyPartGaussSmooth :: "int \<Rightarrow> int \<Rightarrow> int \<Rightarrow> real \<Rightarrow> actvol \<Rightarrow> jserror + actvol" where
  "applyPartGaussSmooth zStart zEnd rad sigma s =
     bind_res (if zStart = 0 then gaussInit rad sigma s else Inr s)
       (gaussConvolve zStart zEnd rad)"

text \<open>
  What a band does to the smoothed volume depends on the object only through fields
  that smoothing leaves as they are: \<open>band_throws\<close> is the part of the test above
  that does not depend on the range of slices, \<open>band_slice\<close> the body of the loop
  over \<open>cz\<close>.
\<close>

definition band_throws :: "int \<Rightarrow> actvol \<Rightarrow> bool" where
  "band_throws rad s \<longleftrightarrow>
     rad < m_yDim s - rad \<and> rad < m_xDim s - rad \<and>
     ((0 \<le> rad \<and> (m_gaussMatrix s = None \<or> m_pixelsSrc s = None)) \<or> m_imageGauss s = None)"

definition band_slice :: "int \<Rightarrow> actvol \<Rightarrow> int \<Rightarrow> jsnum list \<Rightarrow> jsnum list" where
  "band_slice rad s cz =
     (let gaussMatrix = (case m_gaussMatrix s of Some m \<Rightarrow> m | None \<Rightarrow> []);
          pixelsSrc = (case m_pixelsSrc s of Some p \<Rightarrow> p | None \<Rightarrow> []);
          czOff = cz * m_xDim s * m_yDim s
      in for_int rad (m_yDim s - rad) (\<lambda>cy.
           let cyOff = cy * m_xDim s in
           for_int rad (m_xDim s - rad) (\<lambda>cx a.
             ta_set a (of_int (cx + cyOff + czOff))
               (gaussSum gaussMatrix pixelsSrc (m_xDim s) (m_yDim s) rad cx cy cz))))"

section \<open>The smooth step\<close>

text \<open>
  \<^verbatim>\<open>static smoothStep(minRange, maxRange, arg)\<close>: the two conditional expressions
  clamp \<open>t\<close>; a NaN fails the test \<^verbatim>\<open>t > 0.0\<close> and becomes 0.
\<close>

definition smoothStep :: "jsnum \<Rightarrow> jsnum \<Rightarrow> jsnum \<Rightarrow> jsnum" where
  "smoothStep minRange maxRange arg =
     (let t = js_div (js_sub arg minRange) (js_sub maxRange minRange);
          t = (if js_gt t (Fin 0) then t else Fin 0);
          t = (if js_lt t (Fin 1) then t else Fin 1);
          res = js_mul (js_mul t t) (js_sub (Fin 3) (js_mul (Fin 2) t))
      in res)"

section \<open>The classifier: getHistogram\<close>

text \<open>
  An \<^verbatim>\<open>Int32Array\<close> is a list of integers; a stored value wraps to 32 bits. The
  statement \<^verbatim>\<open>this.m_histogram[val]++\<close> changes an element only when \<open>val\<close> is
  an integer within the range of the array: for any other number (a fraction, a
  negative number, NaN from a read outside an image) the write changes no element.
  The negative zero is the property key \<^verbatim>\<open>"0"\<close>, as the positive zero is.
\<close>

definition int32 :: "int \<Rightarrow> int" where
  "int32 n = (n + 2 ^ 31) mod 2 ^ 32 - 2 ^ 31"

definition i32_get :: "int list \<Rightarrow> real \<Rightarrow> jsnum" where
  "i32_get h k = (if is_index k (length h) then Fin (of_int (h ! nat \<lfloor>k\<rfloor>)) else NaN)"

definition i32_set :: "int list \<Rightarrow> real \<Rightarrow> int \<Rightarrow> int list" where
  "i32_set h k v = (if is_index k (length h) then h[nat \<lfloor>k\<rfloor> := int32 v] else h)"

definition hist_inc :: "int list \<Rightarrow> jsnum \<Rightarrow> int list" where
  "hist_inc h val =
     (case val of
        Fin k \<Rightarrow> if is_index k (length h) then i32_set h k (h ! nat \<lfloor>k\<rfloor> + 1) else h
      | NZero \<Rightarrow> if is_index 0 (length h) then i32_set h 0 (h ! 0 + 1) else h
      | _ \<Rightarrow> h)"

definition clearHistogram :: "int list \<Rightarrow> int list" where
  "clearHistogram h = for_int 0 AV_NUM_COLORS (\<lambda>i h. i32_set h (of_int i) 0) h"

text \<open>The pass over the whole smoothed volume: floor, clamp from above, count.\<close>

definition fullHistogram :: "jsnum list \<Rightarrow> int \<Rightarrow> int list \<Rightarrow> int list" where
  "fullHistogram imageGauss numPixels h =
     (let MAX_COLOR = AV_NUM_COLORS - 1 in
      for_int 0 numPixels (\<lambda>i h.
        let val = js_floor (ta_get imageGauss (of_int i));
            val = (if js_lt val (Fin (of_int MAX_COLOR)) then val else Fin (of_int MAX_COLOR))
        in hist_inc h val) h)"

definition histProbability :: "int list \<Rightarrow> jsnum \<Rightarrow> jsnum list \<Rightarrow> jsnum list" where
  "histProbability hist n prob =
     for_int 0 AV_NUM_COLORS (\<lambda>i p.
       let h = i32_get hist (of_int i) in ta_set p (of_int i) (js_div h n)) prob"

text \<open>The first strict local minimum among the colours 1 to 63, or 0.\<close>

definition findMinColor :: "jsnum list \<Rightarrow> int" where
  "findMinColor prob =
     (let MAGIC_PART_HIST = 64 in
      case find (\<lambda>i. js_lt (ta_get prob (of_int i)) (ta_get prob (of_int (i + 1))) \<and>
                      js_lt (ta_get prob (of_int i)) (ta_get prob (of_int (i - 1))))
             [1..MAGIC_PART_HIST - 1] of
        None \<Rightarrow> 0
      | Some i \<Rightarrow> i)"

text \<open>
  \<^verbatim>\<open>delta ** POW_KOEF\<close> for the positive exponent 0.3, which is no integer: NaN for
  a negative base, \<open>+0\<close> for a zero base.
\<close>

fun js_pow :: "jsnum \<Rightarrow> real \<Rightarrow> jsnum" where
  "js_pow (Fin a) p = (if a < 0 then NaN else Fin (a powr p))"
| "js_pow NZero p = Fin 0"
| "js_pow PInf p = PInf"
| "js_pow NInf p = PInf"
| "js_pow NaN p = NaN"

definition buildColorKoefs :: "int \<Rightarrow> jsnum list \<Rightarrow> jsnum list" where
  "buildColorKoefs indexMinColor koefs =
     (let POW_KOEF = 0.3 in
      for_int 0 AV_NUM_COLORS (\<lambda>i k.
        let delta = Fin \<bar>of_int (i - indexMinColor)\<bar>
        in ta_set k (of_int i)
             (js_sub (Fin 1) (js_div (Fin 1) (js_add (Fin 1) (js_pow delta POW_KOEF))))) koefs)"

text \<open>
  The border strips. The source names the two constants of the ratio \<^verbatim>\<open>NUM_20\<close> and
  \<^verbatim>\<open>NUM_526\<close> and gives both the value 20.0.
\<close>

definition NUM_20 :: real where "NUM_20 = 20"
definition NUM_526 :: real where "NUM_526 = 20"
definition RATIO_BORDER :: real where "RATIO_BORDER = NUM_20 / NUM_526"
definition SCAN_RANGE :: real where "SCAN_RANGE = 4"
definition VAL_BORDER_ADD :: real where "VAL_BORDER_ADD = 40"

text \<open>
  The window of the later passes: \<open>zMin \<le> z < zMax\<close> and \<open>yMin \<le> y < yMax\<close> around
  the centre (halves of odd dimensions are no integers), and the strip bounds
  \<open>xMin\<close> and \<open>xMax\<close>.
\<close>

record scan_window =
  zMin :: real
  zMax :: real
  yMin :: real
  yMax :: real
  xMin :: real
  xMax :: real

definition scanWindow :: "int \<Rightarrow> int \<Rightarrow> int \<Rightarrow> scan_window" where
  "scanWindow xDim yDim zDim =
     \<lparr> zMin = of_int zDim / 2 - SCAN_RANGE, zMax = of_int zDim / 2 + SCAN_RANGE,
       yMin = of_int yDim / 2 - SCAN_RANGE, yMax = of_int yDim / 2 + SCAN_RANGE,
       xMin = of_int xDim * RATIO_BORDER,
       xMax = of_int xDim - of_int xDim * RATIO_BORDER \<rparr>"

text \<open>The average over the two strips: the loop state is \<open>(colBlack, numPixelsBorder)\<close>.\<close>

definition borderBlack :: "jsnum list \<Rightarrow> int \<Rightarrow> int \<Rightarrow> scan_window \<Rightarrow> jsnum" where
  "borderBlack imageGauss xDim yDim w =
     (let (colBlack, numPixelsBorder) =
        for_real (zMin w) (zMax w) (\<lambda>z.
          let zOff = z * of_int xDim * of_int yDim in
          for_real (yMin w) (yMax w) (\<lambda>y st.
            let yOff = y * of_int xDim;
                st = for_real 0 (xMin w) (\<lambda>x (colBlack, n).
                       let off = x + yOff + zOff
                       in (js_add colBlack (ta_get imageGauss off), n + 1)) st
            in for_real (xMax w) (of_int xDim) (\<lambda>x (colBlack, n).
                 let off = x + yOff + zOff
                 in (js_add colBlack (ta_get imageGauss off), n + 1)) st))
          (Fin 0, 0 :: int)
      in js_div colBlack (Fin (of_int numPixelsBorder)))"

text \<open>
  A loop that is left by \<^verbatim>\<open>break\<close>: the value of \<open>x\<close> after
  \<^verbatim>\<open>for (x = lo; x < hi; x++) if (stop x) break;\<close>, and after the loop that counts
  down, \<^verbatim>\<open>for (x = hi; x > lo; x--) if (stop x) break;\<close>.
\<close>

definition scanUp :: "real \<Rightarrow> real \<Rightarrow> (real \<Rightarrow> bool) \<Rightarrow> real" where
  "scanUp lo hi stop =
     (case find stop (real_range lo hi) of
        Some x \<Rightarrow> x
      | None \<Rightarrow> lo + real (nat \<lceil>hi - lo\<rceil>))"

definition scanDown :: "real \<Rightarrow> real \<Rightarrow> (real \<Rightarrow> bool) \<Rightarrow> real" where
  "scanDown hi lo stop =
     (case find stop (map (\<lambda>k. hi - real k) [0..<nat \<lceil>hi - lo\<rceil>]) of
        Some x \<Rightarrow> x
      | None \<Rightarrow> hi - real (nat \<lceil>hi - lo\<rceil>))"

text \<open>Where the border starts on the left and on the right: \<open>(xLeftMin, xRightMax)\<close>.\<close>

definition findBorders :: "jsnum list \<Rightarrow> int \<Rightarrow> int \<Rightarrow> scan_window \<Rightarrow> jsnum \<Rightarrow> real \<times> real" where
  "findBorders imageGauss xDim yDim w colBlack =
     (let w2 = of_int xDim / 2 in
      for_real (zMin w) (zMax w) (\<lambda>z.
        let zOff = z * of_int xDim * of_int yDim in
        for_real (yMin w) (yMax w) (\<lambda>y (xLeftMin, xRightMax).
          let yOff = y * of_int xDim;
              bright = (\<lambda>x. js_gt (ta_get imageGauss (x + yOff + zOff))
                                  (js_add colBlack (Fin VAL_BORDER_ADD)));
              xBorder = scanUp (xMin w) w2 bright;
              xLeftMin = (if xBorder < xLeftMin then xBorder else xLeftMin);
              xBorder = scanDown (xMax w) w2 bright;
              xRightMax = (if xBorder > xRightMax then xBorder else xRightMax)
          in (xLeftMin, xRightMax)))
        (of_int xDim, 0))"

text \<open>
  The histogram of the two bands next to the borders: the loop state is
  \<open>(m_histogram, numPixHist)\<close>. \<open>bandRow\<close> is the body of the loop over \<open>y\<close>, the
  two loops over \<open>x\<close> of one row: the left band counts the raw value, the right band
  its floor.
\<close>

definition bandRow ::
  "jsnum list \<Rightarrow> real \<Rightarrow> real \<Rightarrow> real \<Rightarrow> real \<Rightarrow> real \<Rightarrow> real \<Rightarrow> int list \<times> int \<Rightarrow> int list \<times> int" where
  "bandRow imageGauss yOff zOff xLeftMin xLeftMax xRightMin xRightMax st =
     (let st = for_real xLeftMin xLeftMax (\<lambda>x (h, numPixHist).
                 let off = x + yOff + zOff;
                     val = ta_get imageGauss off
                 in (hist_inc h val, numPixHist + 1)) st
      in for_real xRightMin xRightMax (\<lambda>x (h, numPixHist).
           let off = x + yOff + zOff;
               val = js_floor (ta_get imageGauss off)
           in (hist_inc h val, numPixHist + 1)) st)"

definition bandHistogram ::
  "jsnum list \<Rightarrow> int \<Rightarrow> int \<Rightarrow> scan_window \<Rightarrow> real \<Rightarrow> real \<Rightarrow> real \<Rightarrow> real \<Rightarrow> int list \<Rightarrow> int list \<times> int" where
  "bandHistogram imageGauss xDim yDim w xLeftMin xLeftMax xRightMin xRightMax hist =
     for_real (zMin w) (zMax w) (\<lambda>z.
       let zOff = z * of_int xDim * of_int yDim in
       for_real (yMin w) (yMax w) (\<lambda>y.
         let yOff = y * of_int xDim
         in bandRow imageGauss yOff zOff xLeftMin xLeftMax xRightMin xRightMax))
       (hist, 0)"

text \<open>
  The restricted pass as \<^verbatim>\<open>getHistogram\<close> runs it on the smoothed volume: the
  histogram it leaves in \<open>m_histogram\<close> and the number of samples \<open>numPixHist\<close>.
\<close>

definition restrictedHistogram :: "jsnum list \<Rightarrow> int \<Rightarrow> int \<Rightarrow> int \<Rightarrow> int list \<Rightarrow> int list \<times> int" where
  "restrictedHistogram imageGauss xDim yDim zDim hist =
     (let w = scanWindow xDim yDim zDim;
          colBlack = borderBlack imageGauss xDim yDim w;
          (xLeftMin, xRightMax) = findBorders imageGauss xDim yDim w colBlack;
          NUM_512 = 512;
          RANGE_SCAN = of_int xDim * VAL_BORDER_ADD / NUM_512;
          xLeftMax = xLeftMin + RANGE_SCAN;
          xRightMin = xRightMax - RANGE_SCAN
      in bandHistogram imageGauss xDim yDim w xLeftMin xLeftMax xRightMin xRightMax
           (clearHistogram hist))"

text \<open>
  \<^verbatim>\<open>static smoothArray(values, numValues, gaussRad, gaussSigma)\<close>: indices beyond
  the ends are clamped; the state of the inner loop is \<open>(sum, sumWeight)\<close>.
\<close>

definition smoothArray :: "jsnum list \<Rightarrow> int \<Rightarrow> int \<Rightarrow> real \<Rightarrow> jsnum list" where
  "smoothArray values numValues gaussRad gaussSigma =
     (let mult = js_div (Fin 1) (Fin (gaussSigma * gaussSigma));
          dst = for_int 0 numValues (\<lambda>ci dst.
                  let (sum, sumWeight) =
                        for_incl (- gaussRad) gaussRad (\<lambda>di (sum, sumWeight).
                          let i = ci + di;
                              i = (if i \<ge> 0 then i else 0);
                              i = (if i < numValues then i else numValues - 1);
                              t = js_div (Fin (of_int di)) (Fin (of_int gaussRad));
                              weight = js_div (Fin 1) (js_exp (js_mul (js_mul t t) mult))
                          in (js_add sum (js_mul (ta_get values (of_int i)) weight),
                              js_add sumWeight weight))
                          (Fin 0, Fin 0);
                      valSmoothed = js_div sum sumWeight
                  in ta_set dst (of_int ci) valSmoothed)
                  (replicate (nat AV_NUM_COLORS) (Fin 0))
      in for_int 0 numValues (\<lambda>i v. ta_set v (of_int i) (ta_get dst (of_int i))) values)"

text \<open>
  The two bounds of the classification curve, before they are moved apart by 2: the
  first colour below 128 whose probability reaches the barrier, and the next local
  minimum after it. The value of \<open>i\<close> after a loop without \<^verbatim>\<open>break\<close> is the bound
  128, or the start when that is beyond it.
\<close>

definition findBlackL :: "jsnum list \<Rightarrow> jsnum \<Rightarrow> int" where
  "findBlackL prob probBarrier =
     (let NUM_COLS_HALF = 128 in
      case find (\<lambda>i. js_ge (ta_get prob (of_int i)) probBarrier) [0..NUM_COLS_HALF - 1] of
        Some i \<Rightarrow> i
      | None \<Rightarrow> NUM_COLS_HALF)"

definition findBlackR :: "jsnum list \<Rightarrow> int \<Rightarrow> int" where
  "findBlackR prob indBlackL =
     (let NUM_COLS_HALF = 128 in
      case find (\<lambda>i. js_le (ta_get prob (of_int i)) (ta_get prob (of_int (i - 1))) \<and>
                      js_le (ta_get prob (of_int i)) (ta_get prob (of_int (i + 1))))
             [indBlackL + 1..NUM_COLS_HALF - 1] of
        Some i \<Rightarrow> i
      | None \<Rightarrow> (if indBlackL + 1 < NUM_COLS_HALF then NUM_COLS_HALF else indBlackL + 1))"

text \<open>
  \<^verbatim>\<open>getHistogram()\<close>. Every read of the smoothed volume is of \<open>m_imageGauss\<close>; the
  window loops always run (8 slices by 8 rows), and with the strip bounds above some
  loop over \<open>x\<close> reads the volume exactly when \<open>m_xDim\<close> is not 0, so that is when a
  \<^verbatim>\<open>null\<close> volume throws.
\<close>

definition getHistogram :: "actvol \<Rightarrow> jserror + int \<times> actvol" where
  "getHistogram s =
     (if m_imageGauss s = None \<and> m_xDim s \<noteq> 0 then Inl TypeError
      else
        let imageGauss = (case m_imageGauss s of Some a \<Rightarrow> a | None \<Rightarrow> []);
            numPixels = m_xDim s * m_yDim s * m_zDim s;
            hist = fullHistogram imageGauss numPixels (clearHistogram (m_histogram s));
            prob = histProbability hist (Fin (of_int numPixels)) (m_colorProbability s);
            indexMinColor = findMinColor prob;
            koefs = buildColorKoefs indexMinColor (m_colorKoefs s);
            (hist, numPixHist) =
              restrictedHistogram imageGauss (m_xDim s) (m_yDim s) (m_zDim s) hist;
            prob = histProbability hist (Fin (of_int numPixHist)) prob;
            GAUSS_RAD = 12;
            GAUSS_SIGMA = 2.6;
            prob = smoothArray prob AV_NUM_COLORS GAUSS_RAD GAUSS_SIGMA;
            maxProb = for_int 0 AV_NUM_COLORS (\<lambda>i maxProb.
                        if js_gt (ta_get prob (of_int i)) maxProb
                        then ta_get prob (of_int i) else maxProb) (Fin 0);
            probBarrier = js_div (js_mul maxProb (Fin 1)) (Fin 3);
            indBlackL = findBlackL prob probBarrier;
            indBlackR = findBlackR prob indBlackL;
            indBlackL = indBlackL - 2;
            indBlackR = indBlackR + 2;
            prob = for_int 0 AV_NUM_COLORS (\<lambda>i p.
                     ta_set p (of_int i)
                       (smoothStep (Fin (of_int indBlackL)) (Fin (of_int indBlackR))
                          (Fin (of_int i)))) prob
        in Inr (1, s\<lparr>m_histogram := hist, m_colorProbability := prob,
                      m_colorKoefs := koefs, m_indexMinColor := indexMinColor\<rparr>))"

section \<open>The step function: updateGeo\<close>

text \<open>
  The mesh object comes from \<^verbatim>\<open>./georender\<close> and the seed from \<^verbatim>\<open>./tetra\<close>, which
  are not among the sources. What the engine uses of a mesh is its vertex array (four
  numbers per vertex, a \<^verbatim>\<open>Float32Array\<close>), its vertex and triangle counts and its
  normals; what it asks of the two collaborators is a parameter of the model:
  the status \<^verbatim>\<open>genTetra.create\<close> returns, the status and the mesh of
  \<^verbatim>\<open>createFromTetrahedronGenerator\<close>, and \<^verbatim>\<open>createNormalsForGeometry\<close> as a
  function from the mesh to its status and the mesh with normals.
\<close>

record georender =
  gr_numVertices :: int
  gr_vertices :: "jsnum list"
  gr_normals :: "(jsnum \<times> jsnum \<times> jsnum) list"
  gr_numTriangles :: int

record external =
  tetra_create :: int
  createFromTetrahedronGenerator :: "int \<times> georender"
  createNormalsForGeometry :: "georender \<Rightarrow> int \<times> georender"

text \<open>
  \<^verbatim>\<open>updateGeoNormalsUniformityColors(geo, normalSpeed)\<close> only logs; the log reads
  \<^verbatim>\<open>normals[0].x\<close>, which throws when there is no normal. It returns nothing, so the
  caller's \<open>isFinished\<close> is false.
\<close>

definition updateGeoNormalsUniformityColors :: "georender \<Rightarrow> real \<Rightarrow> jserror + bool" where
  "updateGeoNormalsUniformityColors geo normalSpeed =
     (if gr_normals geo = [] then Inl TypeError else Inr False)"

text \<open>The four blocks of \<^verbatim>\<open>updateGeo\<close>, one for each state that has work.\<close>

definition stepNotStarted :: "int \<Rightarrow> actvol \<Rightarrow> jserror + actvol" where
  "stepNotStarted maxLength s =
     bind_res (startImageSmooth maxLength s) (\<lambda>s.
       Inr (s\<lparr>m_gaussStage := 0, m_state := AV_STATE_PREPARE_GAUSS\<rparr>))"

definition stepPrepareGauss :: "actvol \<Rightarrow> jserror + actvol" where
  "stepPrepareGauss s =
     (let GAUSS_RAD = 2;
          GAUSS_SIGMA = 1.8;
          zStart = \<lfloor>real_of_int (m_zDim s * (m_gaussStage s + 0))
                     / real_of_int ACT_VOL_NUM_SMOOTH_STAGES\<rfloor>;
          zEnd = \<lfloor>real_of_int (m_zDim s * (m_gaussStage s + 1))
                   / real_of_int ACT_VOL_NUM_SMOOTH_STAGES\<rfloor>
      in bind_res (applyPartGaussSmooth zStart zEnd GAUSS_RAD GAUSS_SIGMA s) (\<lambda>s.
           let s = s\<lparr>m_gaussStage := m_gaussStage s + 1\<rparr>
           in Inr (if m_gaussStage s \<ge> ACT_VOL_NUM_SMOOTH_STAGES
                   then s\<lparr>m_state := AV_STATE_PREPARE_UNIFORMITY, m_uniformityStage := 0\<rparr>
                   else s)))"

definition stepPrepareUniformity :: "actvol \<Rightarrow> jserror + actvol" where
  "stepPrepareUniformity s =
     (let s = s\<lparr>m_uniformityStage := m_uniformityStage s + 1\<rparr>
      in if m_uniformityStage s = ACT_VOL_NUM_SMOOTH_STAGES
         then bind_res (getHistogram s) (\<lambda>(ok, s).
                let s = stopImageSmooth s
                in Inr (s\<lparr>m_geoStage := 0, m_state := AV_STATE_UPDATE_GEO\<rparr>))
         else Inr s)"

text \<open>
  The block of the state \<open>UPDATE_GEO\<close>. The class defines neither
  \<^verbatim>\<open>updateGeoByVertexNormals\<close> nor \<^verbatim>\<open>updateGeoByVertexNormalsAndUniformity\<close>, so
  the two calls throw a TypeError.
\<close>

definition stepUpdateGeo :: "int \<Rightarrow> georender \<Rightarrow> int \<Rightarrow> actvol \<Rightarrow> jserror + actvol" where
  "stepUpdateGeo maxLength geo method s =
     bind_res
       (case m_verticesNew s of
          Some v \<Rightarrow> Inr s
        | None \<Rightarrow>
            let numVertices = gr_numVertices geo;
                COORDS_IN_VERTREX = 4
            in bind_res (newFloat32Array maxLength (numVertices * COORDS_IN_VERTREX)) (\<lambda>v.
                 Inr (s\<lparr>m_verticesNew := Some v\<rparr>)))
       (\<lambda>s.
          let updateNormals = ((method AND AV_METHOD_NORMALS) \<noteq> 0);
              updateUniformity = ((method AND AV_METHOD_UNIFORMITY) \<noteq> 0);
              updateColorKoefs = ((method AND AV_METHOD_COLOR_KOEFS) \<noteq> 0);
              SPEED_NORMALS = 1.1
          in if updateNormals \<and> \<not> updateUniformity then Inl TypeError
             else if updateNormals \<and> updateUniformity \<and> \<not> updateColorKoefs then Inl TypeError
             else
               bind_res
                 (if updateNormals \<and> updateUniformity \<and> updateColorKoefs
                  then bind_res (updateGeoNormalsUniformityColors geo SPEED_NORMALS)
                         (\<lambda>isFinished.
                            Inr (if isFinished then s\<lparr>m_state := AV_STATE_FINISHED\<rparr> else s))
                  else Inr s)
                 (\<lambda>s. Inr (s\<lparr>m_geoStage := m_geoStage s + 1\<rparr>)))"

text \<open>A block runs when the object is in its state at the time the block is reached.\<close>

definition when_state :: "av_state \<Rightarrow> (actvol \<Rightarrow> jserror + actvol) \<Rightarrow> actvol \<Rightarrow> jserror + actvol" where
  "when_state st block s = (if m_state s = st then block s else Inr s)"

text \<open>
  \<^verbatim>\<open>updateGeo(geo, method)\<close>: the returned status, the object and the mesh. The four
  blocks follow one another as separate \<^verbatim>\<open>if\<close> statements, each testing the state
  the earlier ones have left.
\<close>

definition updateGeo ::
  "int \<Rightarrow> (georender \<Rightarrow> int \<times> georender) \<Rightarrow> georender \<Rightarrow> int \<Rightarrow> actvol \<Rightarrow> jserror + int \<times> actvol \<times> georender" where
  "updateGeo maxLength createNormals geo method s =
     (if m_state s = AV_STATE_FINISHED then Inr (1, s, geo)
      else
        let (okCreateNormals, geo) =
              (if m_state s = AV_STATE_NOT_STARTED then createNormals geo else (1, geo))
        in if m_state s = AV_STATE_NOT_STARTED \<and> okCreateNormals \<noteq> 1
           then Inr (okCreateNormals, s, geo)
           else
             bind_res (when_state AV_STATE_NOT_STARTED (stepNotStarted maxLength) s) (\<lambda>s.
             bind_res (when_state AV_STATE_PREPARE_GAUSS stepPrepareGauss s) (\<lambda>s.
             bind_res (when_state AV_STATE_PREPARE_UNIFORMITY stepPrepareUniformity s) (\<lambda>s.
             bind_res (when_state AV_STATE_UPDATE_GEO (stepUpdateGeo maxLength geo method) s) (\<lambda>s.
             Inr (1, s, geo))))))"

text \<open>
  The states whose block a call of \<^verbatim>\<open>updateGeo\<close> enters, in the order of entry: the
  same sequence of tests as above, recording each state whose test succeeds. A block
  that throws ends the call.
\<close>

definition worked :: "av_state \<Rightarrow> actvol \<Rightarrow> av_state list" where
  "worked st s = (if m_state s = st then [st] else [])"

definition statesWorked ::
  "int \<Rightarrow> (georender \<Rightarrow> int \<times> georender) \<Rightarrow> georender \<Rightarrow> int \<Rightarrow> actvol \<Rightarrow> av_state list" where
  "statesWorked maxLength createNormals geo method s =
     (if m_state s = AV_STATE_FINISHED then []
      else
        let (okCreateNormals, geo) =
              (if m_state s = AV_STATE_NOT_STARTED then createNormals geo else (1, geo));
            w0 = worked AV_STATE_NOT_STARTED s
        in if m_state s = AV_STATE_NOT_STARTED \<and> okCreateNormals \<noteq> 1 then w0
           else
             case when_state AV_STATE_NOT_STARTED (stepNotStarted maxLength) s of
               Inl e \<Rightarrow> w0
             | Inr s \<Rightarrow>
                 let w1 = w0 @ worked AV_STATE_PREPARE_GAUSS s in
                 case when_state AV_STATE_PREPARE_GAUSS stepPrepareGauss s of
                   Inl e \<Rightarrow> w1
                 | Inr s \<Rightarrow>
                     let w2 = w1 @ worked AV_STATE_PREPARE_UNIFORMITY s in
                     case when_state AV_STATE_PREPARE_UNIFORMITY stepPrepareUniformity s of
                       Inl e \<Rightarrow> w2
                     | Inr s \<Rightarrow> w2 @ worked AV_STATE_UPDATE_GEO s)"

section \<open>The driver: skullRemove\<close>

text \<open>
  The rescaling of the seed mesh: the loop state is \<open>(i4, vertices)\<close>, with
  \<open>i4\<close> advancing by \<open>COORDS_IN_VERTEX\<close> for each vertex.
\<close>

definition scaleVertices :: "int \<Rightarrow> int \<Rightarrow> int \<Rightarrow> georender \<Rightarrow> georender" where
  "scaleVertices xDim yDim zDim geoRender =
     (let xDim2 = (of_int xDim - 1) * 0.5;
          yDim2 = (of_int yDim - 1) * 0.5;
          zDim2 = (of_int zDim - 1) * 0.5;
          numVertices = gr_numVertices geoRender;
          COORDS_IN_VERTEX = 4
      in geoRender\<lparr>gr_vertices :=
           snd (for_int 0 numVertices (\<lambda>i (i4, vertices).
                  let vertices = ta_set vertices (of_int (i4 + 0))
                        (js_add (Fin xDim2) (js_mul (Fin xDim2) (ta_get vertices (of_int (i4 + 0)))));
                      vertices = ta_set vertices (of_int (i4 + 1))
                        (js_add (Fin yDim2) (js_mul (Fin yDim2) (ta_get vertices (of_int (i4 + 1)))));
                      vertices = ta_set vertices (of_int (i4 + 2))
                        (js_add (Fin zDim2) (js_mul (Fin zDim2) (ta_get vertices (of_int (i4 + 2)))))
                  in (i4 + COORDS_IN_VERTEX, vertices))
                (0 :: int, gr_vertices geoRender))\<rparr>)"

definition getPredictedStepsForActiveVolumeUpdate :: "actvol \<Rightarrow> real" where
  "getPredictedStepsForActiveVolumeUpdate s =
     (let hx = of_int (m_xDim s) / 2;
          hy = of_int (m_yDim s) / 2;
          hz = of_int (m_zDim s) / 2;
          xyMax = (if hx > hy then hx else hy);
          xyzMax = (if xyMax > hz then xyMax else hz);
          stepsAll = xyzMax + of_int ACT_VOL_NUM_SMOOTH_STAGES
      in stepsAll)"

text \<open>
  The loop \<^verbatim>\<open>for (iter = 0; (iter < numPredSteps) && !isFinished; iter++)\<close>, by the
  number of iterations \<open>iter\<close> still has before it reaches \<open>numPredSteps\<close>.
\<close>

fun updateLoop ::
  "int \<Rightarrow> (georender \<Rightarrow> int \<times> georender) \<Rightarrow> nat \<Rightarrow> actvol \<Rightarrow> georender \<Rightarrow> jserror + actvol \<times> georender" where
  "updateLoop maxLength createNormals 0 s geo = Inr (s, geo)"
| "updateLoop maxLength createNormals (Suc n) s geo =
     bind_res (updateGeo maxLength createNormals geo AV_METHOD_ALL s) (\<lambda>(ok, s, geo).
       let isFinished = (m_state s = AV_STATE_FINISHED)
       in if isFinished then Inr (s, geo) else updateLoop maxLength createNormals n s geo)"

text \<open>
  \<^verbatim>\<open>skullRemove(xDim, yDim, zDim, volTexSrc, volTexDst, needCreateMask, needLog)\<close>:
  the returned status, the object and the destination volume as the call leaves them.
  The debug export is switched off by the constant \<^verbatim>\<open>NEED_SAVE_BMP = false\<close>.
\<close>

definition skullRemove ::
  "int \<Rightarrow> external \<Rightarrow> int \<Rightarrow> int \<Rightarrow> int \<Rightarrow> jsnum list \<Rightarrow> jsnum list \<Rightarrow> bool \<Rightarrow> bool \<Rightarrow> actvol
     \<Rightarrow> jserror + int \<times> actvol \<times> jsnum list" where
  "skullRemove maxLength ext xDim yDim zDim volTexSrc volTexDst needCreateMask needLog s =
     (let TOO_MUCH_SIZE = 8192 in
      if xDim \<ge> TOO_MUCH_SIZE \<or> yDim \<ge> TOO_MUCH_SIZE \<or> zDim \<ge> TOO_MUCH_SIZE
      then Inr (- 1, s, volTexDst)
      else if xDim \<le> 1 \<or> yDim \<le> 1 \<or> zDim \<le> 1
      then Inr (- 1, s, volTexDst)
      else
        bind_res (create maxLength xDim yDim zDim volTexSrc s) (\<lambda>(okCreate, s).
          if okCreate \<noteq> 1 then Inr (okCreate, s, volTexDst)
          else
            let okCreateTetra = tetra_create ext in
            if okCreateTetra < 1 then Inr (okCreateTetra, s, volTexDst)
            else
              let (errGeo, geoRender) = createFromTetrahedronGenerator ext;
                  GEO_OK = 1
              in if errGeo \<noteq> GEO_OK then Inr (- 3, s, volTexDst)
                 else
                   let geoRender = scaleVertices (m_xDim s) (m_yDim s) (m_zDim s) geoRender;
                       numPredSteps = getPredictedStepsForActiveVolumeUpdate s
                   in bind_res
                        (updateLoop maxLength (createNormalsForGeometry ext) (nat \<lceil>numPredSteps\<rceil>)
                           s geoRender)
                        (\<lambda>(s, geoRender). Inr (1, s, volTexDst))))"

text \<open>
  A caller that invokes \<^verbatim>\<open>updateGeo\<close> once for each method of a list, on the same
  object and mesh, and collects the statuses.
\<close>

fun updateGeoCalls ::
  "int \<Rightarrow> (georender \<Rightarrow> int \<times> georender) \<Rightarrow> int list \<Rightarrow> actvol \<Rightarrow> georender
     \<Rightarrow> jserror + int list \<times> actvol \<times> georender" where
  "updateGeoCalls maxLength createNormals [] s geo = Inr ([], s, geo)"
| "updateGeoCalls maxLength createNormals (method # methods) s geo =
     bind_res (updateGeo maxLength createNormals geo method s) (\<lambda>(ok, s, geo).
       bind_res (updateGeoCalls maxLength createNormals methods s geo) (\<lambda>(oks, s, geo).
         Inr (ok # oks, s, geo)))"

section \<open>Example inputs\<close>

text \<open>
  An engine whose typed arrays have at most \<open>2\<^sup>3\<^sup>2 - 1\<close> elements, a mesh of one
  vertex with its normal, a \<^verbatim>\<open>createNormalsForGeometry\<close> that succeeds and leaves
  the mesh as it is, collaborators that succeed with that mesh, and the object that
  \<^verbatim>\<open>create(2, 2, 2, volTexSrc)\<close> leaves for a volume of eight samples of intensity
  100.
\<close>

definition example_maxLength :: int where
  "example_maxLength = 2 ^ 32 - 1"

definition example_mesh :: georender where
  "example_mesh =
     \<lparr> gr_numVertices = 1, gr_vertices = [Fin (1 / 2), Fin (- 1 / 2), Fin 0, Fin 1],
       gr_normals = [(Fin 0, Fin 0, Fin 1)], gr_numTriangles = 0 \<rparr>"

definition normals_ok :: "georender \<Rightarrow> int \<times> georender" where
  "normals_ok geo = (1, geo)"

definition example_external :: external where
  "example_external =
     \<lparr> tetra_create = 1, createFromTetrahedronGenerator = (1, example_mesh),
       createNormalsForGeometry = normals_ok \<rparr>"

definition example_engine :: actvol where
  "example_engine =
     constructor\<lparr>m_state := AV_STATE_NOT_STARTED,
       m_pixelsSrc := Some (replicate 8 (Fin 100)),
       m_xDim := 2, m_yDim := 2, m_zDim := 2,
       m_imageGauss := Some (replicate 8 (Fin 0)),
       m_imageUniformity := Some (replicate 8 (Fin 0)),
       m_verticesNew := None\<rparr>"

text \<open>
  An object ready for smoothing: a volume of \<open>6 * 6 * 6\<close> samples of intensity 100,
  after \<^verbatim>\<open>create\<close> and \<^verbatim>\<open>startImageSmooth\<close>. And an object ready for the
  classification: a volume 64 wide, 10 high and 10 deep whose smoothed samples all
  have the value \<open>1/2\<close> (as a source volume of floats of that value gives).
\<close>

definition example_smoothing_engine :: actvol where
  "example_smoothing_engine =
     constructor\<lparr>m_state := AV_STATE_PREPARE_GAUSS,
       m_pixelsSrc := Some (replicate 216 (Fin 100)),
       m_xDim := 6, m_yDim := 6, m_zDim := 6,
       m_imageGauss := Some (replicate 216 (Fin 0)),
       m_imageUniformity := Some (replicate 216 (Fin 0)),
       m_imageSrc := Some (replicate 216 (Fin 100)),
       m_imageGrad := Some (replicate 216 (Fin 0)),
       m_gaussStage := 0\<rparr>"

definition example_classifier_engine :: actvol where
  "example_classifier_engine =
     constructor\<lparr>m_state := AV_STATE_PREPARE_UNIFORMITY,
       m_pixelsSrc := Some (replicate 6400 (Fin (1 / 2))),
       m_xDim := 64, m_yDim := 10, m_zDim := 10,
       m_imageGauss := Some (replicate 6400 (Fin (1 / 2))),
       m_imageUniformity := Some (replicate 6400 (Fin 0)),
       m_imageSrc := Some (replicate 6400 (Fin (1 / 2))),
       m_imageGrad := Some (replicate 6400 (Fin 0)),
       m_gaussStage := 18, m_uniformityStage := 18\<rparr>"

section \<open>Properties of the arithmetic\<close>

lemma js_val_simps [simp]:
  "js_val (Fin a) = a" "js_val NZero = 0"
  by (simp_all add: js_val_def)

lemma js_lt_simps [simp]:
  "js_lt (Fin a) (Fin b) = (a < b)"
  "js_lt NZero (Fin b) = (0 < b)"
  "js_lt (Fin a) NZero = (a < 0)"
  "js_lt NZero NZero = False"
  "js_lt NaN y = False"
  "js_lt x NaN = False"
  "js_lt PInf y = False"
  "js_lt x NInf = False"
  "js_lt NInf (Fin b) = True"
  "js_lt NInf NZero = True"
  "js_lt NInf PInf = True"
  "js_lt (Fin a) PInf = True"
  "js_lt NZero PInf = True"
  by (simp_all add: js_lt_def)

lemma js_le_simps [simp]:
  "js_le (Fin a) (Fin b) = (a \<le> b)"
  "js_le NZero (Fin b) = (0 \<le> b)"
  "js_le (Fin a) NZero = (a \<le> 0)"
  "js_le NZero NZero = True"
  "js_le NaN y = False"
  "js_le x NaN = False"
  "js_le NInf (Fin b) = True"
  "js_le NInf NZero = True"
  "js_le NInf NInf = True"
  "js_le NInf PInf = True"
  "js_le (Fin a) PInf = True"
  "js_le NZero PInf = True"
  "js_le PInf PInf = True"
  "js_le PInf (Fin b) = False"
  "js_le PInf NZero = False"
  "js_le PInf NInf = False"
  "js_le (Fin a) NInf = False"
  "js_le NZero NInf = False"
  by (simp_all add: js_le_def)

lemma js_mul_Fin:
  "js_mul (Fin a) (Fin b) =
     (if a * b = 0 then signed_zero ((a < 0) \<noteq> (b < 0)) else Fin (a * b))"
  by (auto simp: js_mul_def is_zero_def is_inf_def is_negative_def Let_def)

lemma js_mul_Fin_nonneg [simp]:
  "0 \<le> a \<Longrightarrow> 0 \<le> b \<Longrightarrow> js_mul (Fin a) (Fin b) = Fin (a * b)"
  by (auto simp: js_mul_Fin signed_zero_def)

lemma js_mul_Fin_nonzero [simp]:
  "a \<noteq> 0 \<Longrightarrow> b \<noteq> 0 \<Longrightarrow> js_mul (Fin a) (Fin b) = Fin (a * b)"
  by (simp add: js_mul_Fin)

lemma js_div_Fin:
  "js_div (Fin a) (Fin b) =
     (if b = 0 then (if a = 0 then NaN else signed_inf (a < 0))
      else if a = 0 then signed_zero (b < 0) else Fin (a / b))"
  by (auto simp: js_div_def is_zero_def is_inf_def is_negative_def Let_def)

lemma js_div_Fin_nonzero [simp]:
  "a \<noteq> 0 \<Longrightarrow> b \<noteq> 0 \<Longrightarrow> js_div (Fin a) (Fin b) = Fin (a / b)"
  by (simp add: js_div_Fin)

lemma js_sub_Fin [simp]: "js_sub (Fin a) (Fin b) = Fin (a - b)"
  by (simp add: js_sub_def)

lemma js_sub_zero_divisor:
  "js_sub (Fin m) (Fin m) = Fin 0" "js_sub NZero NZero = Fin 0"
  "js_sub (Fin 0) NZero = Fin 0" "js_sub NZero (Fin 0) = NZero"
  by (simp_all add: js_sub_def)

section \<open>Properties of the smooth step\<close>

lemma cubic_unit_interval:
  fixes t :: real
  assumes "0 \<le> t" "t \<le> 1"
  shows "0 \<le> t * t * (3 - 2 * t)" "t * t * (3 - 2 * t) \<le> 1"
proof -
  from assms show "0 \<le> t * t * (3 - 2 * t)" by simp
  have "1 - t * t * (3 - 2 * t) = (1 - t) * (1 - t) * (1 + 2 * t)"
    by (simp add: algebra_simps)
  moreover from assms have "0 \<le> (1 - t) * (1 - t) * (1 + 2 * t)" by simp
  ultimately show "t * t * (3 - 2 * t) \<le> 1" by linarith
qed

lemma smoothStep_clamped:
  "\<exists>t. 0 \<le> t \<and> t \<le> 1 \<and> smoothStep mn mx a = Fin (t * t * (3 - 2 * t))"
proof -
  define q where "q = js_div (js_sub a mn) (js_sub mx mn)"
  define t1 where "t1 = (if js_gt q (Fin 0) then q else Fin 0)"
  define t2 where "t2 = (if js_lt t1 (Fin 1) then t1 else Fin 1)"
  have "\<exists>t. 0 \<le> t \<and> t \<le> 1 \<and> t2 = Fin t"
    unfolding t2_def t1_def by (cases q) (auto simp: js_gt_def)
  then obtain t where t: "0 \<le> t" "t \<le> 1" "t2 = Fin t" by blast
  have "smoothStep mn mx a = js_mul (js_mul t2 t2) (js_sub (Fin 3) (js_mul (Fin 2) t2))"
    by (simp add: smoothStep_def Let_def q_def t1_def t2_def)
  with t show ?thesis by auto
qed

lemma zero_range_ratio:
  assumes "D = NZero \<or> D = Fin 0" "N = NZero \<or> N = Fin n" "N = NZero \<longrightarrow> n = 0"
  shows "js_div N D = (if n = 0 then NaN else signed_inf ((n < 0) \<noteq> (D = NZero)))"
  using assms
  by (auto simp: js_div_def is_zero_def is_inf_def is_negative_def Let_def)

lemma smoothStep_zero_range:
  assumes "is_finite mn" "is_finite mx" "is_finite a" "js_val mx = js_val mn"
  shows "smoothStep mn mx a =
     (if mx = NZero \<and> mn = Fin 0 then (if js_val a < 0 then Fin 1 else Fin 0)
      else (if js_val a \<le> js_val mn then Fin 0 else Fin 1))"
proof -
  define D where "D = js_sub mx mn"
  define N where "N = js_sub a mn"
  have d: "D = (if mx = NZero \<and> mn = Fin 0 then NZero else Fin 0)"
    using assms(1,2,4) unfolding D_def
    by (cases mn; cases mx) (auto simp: is_finite_def js_sub_def)
  have n: "N = NZero \<or> N = Fin (js_val a - js_val mn)"
    "N = NZero \<longrightarrow> js_val a - js_val mn = 0"
    using assms(1,3) unfolding N_def
    by (cases mn; cases a; auto simp: is_finite_def js_sub_def)+
  have "js_div N D = (if js_val a - js_val mn = 0 then NaN
       else signed_inf ((js_val a - js_val mn < 0) \<noteq> (D = NZero)))"
    using d n by (intro zero_range_ratio) auto
  then have q: "js_div (js_sub a mn) (js_sub mx mn) =
      (if js_val a = js_val mn then NaN
       else signed_inf ((js_val a < js_val mn) \<noteq> (mx = NZero \<and> mn = Fin 0)))"
    unfolding D_def [symmetric] N_def [symmetric] using d by auto
  show ?thesis
    unfolding smoothStep_def Let_def q
    by (auto simp: js_gt_def signed_inf_def)
qed

text \<open>
  Claim C10, as amended. \<^verbatim>\<open>smoothStep\<close> is total and returns a value in \<open>[0,1]\<close>
  for every triple of numbers, finite or not. When the triple is finite and
  \<open>maxRange\<close> equals \<open>minRange\<close> the division is by a zero and the clamping yields
  0 or 1, never NaN or an infinity: 0 for \<open>arg \<le> minRange\<close> and 1 for
  \<open>arg > minRange\<close>, except when \<open>maxRange\<close> is \<open>-0\<close> and \<open>minRange\<close> is \<open>+0\<close>;
  then the divisor \<open>maxRange - minRange\<close> is \<open>-0\<close> and the result is 1 for
  \<open>arg < minRange\<close> and 0 for \<open>arg \<ge> minRange\<close>.
\<close>

theorem smoothStep_total_unit_range:
  "(\<exists>r. smoothStep mn mx a = Fin r \<and> 0 \<le> r \<and> r \<le> 1) \<and>
   (is_finite mn \<and> is_finite mx \<and> is_finite a \<and> js_val mx = js_val mn \<longrightarrow>
      smoothStep mn mx a =
        (if mx = NZero \<and> mn = Fin 0 then (if js_val a < 0 then Fin 1 else Fin 0)
         else (if js_val a \<le> js_val mn then Fin 0 else Fin 1)))"
proof
  obtain t where "0 \<le> t" "t \<le> 1"
    and "smoothStep mn mx a = Fin (t * t * (3 - 2 * t))"
    using smoothStep_clamped by blast
  then show "\<exists>r. smoothStep mn mx a = Fin r \<and> 0 \<le> r \<and> r \<le> 1"
    using cubic_unit_interval [of t] by auto
next
  show "is_finite mn \<and> is_finite mx \<and> is_finite a \<and> js_val mx = js_val mn \<longrightarrow>
      smoothStep mn mx a =
        (if mx = NZero \<and> mn = Fin 0 then (if js_val a < 0 then Fin 1 else Fin 0)
         else (if js_val a \<le> js_val mn then Fin 0 else Fin 1))"
    using smoothStep_zero_range by blast
qed

theorem smoothStep_total_unit_range_witness:
  "smoothStep (Fin 5) (Fin 5) (Fin 7) = Fin 1 \<and> smoothStep (Fin 5) (Fin 5) (Fin 5) = Fin 0 \<and>
   smoothStep (Fin 5) (Fin 5) (Fin 2) = Fin 0 \<and>
   smoothStep (Fin 0) NZero (Fin (- 1)) = Fin 1 \<and> smoothStep NZero (Fin 0) (Fin 1) = Fin 1"
  using smoothStep_total_unit_range [of "Fin 5" "Fin 5" "Fin 7"]
    smoothStep_total_unit_range [of "Fin 5" "Fin 5" "Fin 5"]
    smoothStep_total_unit_range [of "Fin 5" "Fin 5" "Fin 2"]
    smoothStep_total_unit_range [of "Fin 0" NZero "Fin (- 1)"]
    smoothStep_total_unit_range [of NZero "Fin 0" "Fin 1"]
  by (simp add: is_finite_def)

text \<open>
  Claim C10 fails as stated for \<open>minRange = +0\<close>, \<open>maxRange = -0\<close> and \<open>arg = 1\<close>:
  the two ranges are equal and the argument is above them, yet the result is 0. The
  difference \<open>-0 - 0\<close> is \<open>-0\<close>, the quotient \<open>1 / -0\<close> is \<open>-Infinity\<close>, and the
  clamping takes it to 0.
\<close>

theorem smoothStep_negative_zero_range:
  "js_val NZero = js_val (Fin 0) \<and> \<not> js_lt NZero (Fin 0) \<and> \<not> js_gt NZero (Fin 0) \<and>
   js_gt (Fin 1) (Fin 0) \<and>
   js_sub NZero (Fin 0) = NZero \<and> js_div (js_sub (Fin 1) (Fin 0)) NZero = NInf \<and>
   smoothStep (Fin 0) NZero (Fin 1) = Fin 0"
  by (simp add: smoothStep_def Let_def js_gt_def js_sub_def js_div_def is_zero_def is_inf_def
      is_negative_def signed_inf_def)

section \<open>Frames and results of the steps\<close>

lemma bind_res_simps [simp]:
  "bind_res (Inl e) f = Inl e" "bind_res (Inr x) f = f x"
  by (simp_all add: bind_res_def)

lemma bind_res_Inr_iff: "bind_res r f = Inr y \<longleftrightarrow> (\<exists>x. r = Inr x \<and> f x = Inr y)"
  by (cases r) simp_all

lemma getHistogram_result:
  assumes "\<not> (m_imageGauss s = None \<and> m_xDim s \<noteq> 0)"
  defines "img \<equiv> (case m_imageGauss s of Some a \<Rightarrow> a | None \<Rightarrow> [])"
  defines "n \<equiv> m_xDim s * m_yDim s * m_zDim s"
  defines "hist1 \<equiv> fullHistogram img n (clearHistogram (m_histogram s))"
  defines "i \<equiv> findMinColor (histProbability hist1 (Fin (of_int n)) (m_colorProbability s))"
  shows "\<exists>s'. getHistogram s = Inr (1, s') \<and>
      m_histogram s' = fst (restrictedHistogram img (m_xDim s) (m_yDim s) (m_zDim s) hist1) \<and>
      m_colorKoefs s' = buildColorKoefs i (m_colorKoefs s) \<and>
      m_indexMinColor s' = i \<and>
      (\<exists>h p k. s' = s\<lparr>m_histogram := h, m_colorProbability := p,
          m_colorKoefs := k, m_indexMinColor := i\<rparr>)"
proof -
  have "\<exists>p. getHistogram s = Inr (1, s\<lparr>
      m_histogram := fst (restrictedHistogram img (m_xDim s) (m_yDim s) (m_zDim s) hist1),
      m_colorProbability := p,
      m_colorKoefs := buildColorKoefs i (m_colorKoefs s),
      m_indexMinColor := i\<rparr>)"
    unfolding img_def n_def hist1_def i_def
    by (subst getHistogram_def, subst if_not_P [OF assms(1)])
      (simp only: Let_def case_prod_beta, blast)
  then obtain p where "getHistogram s = Inr (1, s\<lparr>
      m_histogram := fst (restrictedHistogram img (m_xDim s) (m_yDim s) (m_zDim s) hist1),
      m_colorProbability := p,
      m_colorKoefs := buildColorKoefs i (m_colorKoefs s),
      m_indexMinColor := i\<rparr>)" ..
  then show ?thesis by (intro exI conjI) simp_all
qed

lemma getHistogram_throws:
  assumes "m_imageGauss s = None \<and> m_xDim s \<noteq> 0"
  shows "getHistogram s = Inl TypeError"
  using assms by (subst getHistogram_def) (rule if_P)

lemma getHistogram_Inr:
  assumes "getHistogram s = Inr (r, s')"
  shows "\<not> (m_imageGauss s = None \<and> m_xDim s \<noteq> 0)"
proof
  assume "m_imageGauss s = None \<and> m_xDim s \<noteq> 0"
  from getHistogram_throws [OF this] assms show False by simp
qed

lemma getHistogram_shape:
  assumes "getHistogram s = Inr (r, s')"
  shows "r = 1 \<and> (\<exists>h p k i. s' = s\<lparr>m_histogram := h, m_colorProbability := p,
     m_colorKoefs := k, m_indexMinColor := i\<rparr>)"
proof -
  from getHistogram_result [OF getHistogram_Inr [OF assms]] obtain s'' h p k i where
    "getHistogram s = Inr (1, s'')"
    "s'' = s\<lparr>m_histogram := h, m_colorProbability := p, m_colorKoefs := k,
       m_indexMinColor := i\<rparr>"
    by blast
  with assms show ?thesis by auto
qed

lemma getHistogram_koefs:
  assumes "getHistogram s = Inr (r, s')"
  shows "\<exists>prob. m_indexMinColor s' = findMinColor prob \<and>
    m_colorKoefs s' = buildColorKoefs (findMinColor prob) (m_colorKoefs s)"
proof -
  from getHistogram_result [OF getHistogram_Inr [OF assms]] obtain s'' prob where
    "getHistogram s = Inr (1, s'')"
    "m_colorKoefs s'' = buildColorKoefs (findMinColor prob) (m_colorKoefs s)"
    "m_indexMinColor s'' = findMinColor prob"
    by blast
  with assms show ?thesis by auto
qed

lemma startImageSmooth_frame:
  assumes "startImageSmooth maxLength s = Inr s'"
  shows "m_state s' = m_state s \<and> m_gaussStage s' = m_gaussStage s \<and>
    m_uniformityStage s' = m_uniformityStage s \<and> m_geoStage s' = m_geoStage s \<and>
    m_xDim s' = m_xDim s \<and> m_yDim s' = m_yDim s \<and> m_zDim s' = m_zDim s \<and>
    m_verticesNew s' = m_verticesNew s \<and> m_pixelsSrc s' = m_pixelsSrc s"
  using assms
  by (auto simp: startImageSmooth_def Let_def bind_res_Inr_iff split: if_splits option.splits)

lemma gaussInit_frame:
  assumes "gaussInit rad sg s = Inr s'"
  shows "m_state s' = m_state s \<and> m_gaussStage s' = m_gaussStage s \<and>
    m_uniformityStage s' = m_uniformityStage s \<and> m_geoStage s' = m_geoStage s \<and>
    m_xDim s' = m_xDim s \<and> m_yDim s' = m_yDim s \<and> m_zDim s' = m_zDim s \<and>
    m_verticesNew s' = m_verticesNew s \<and> m_pixelsSrc s' = m_pixelsSrc s"
  using assms
  by (auto simp: gaussInit_def Let_def split: if_splits option.splits prod.splits)

lemma gaussConvolve_frame:
  assumes "gaussConvolve a b rad s = Inr s'"
  shows "m_state s' = m_state s \<and> m_gaussStage s' = m_gaussStage s \<and>
    m_uniformityStage s' = m_uniformityStage s \<and> m_geoStage s' = m_geoStage s \<and>
    m_xDim s' = m_xDim s \<and> m_yDim s' = m_yDim s \<and> m_zDim s' = m_zDim s \<and>
    m_verticesNew s' = m_verticesNew s \<and> m_pixelsSrc s' = m_pixelsSrc s"
  using assms
  by (auto simp: gaussConvolve_def Let_def split: if_splits)

lemma applyPartGaussSmooth_frame:
  assumes "applyPartGaussSmooth a b rad sg s = Inr s'"
  shows "m_state s' = m_state s \<and> m_gaussStage s' = m_gaussStage s \<and>
    m_uniformityStage s' = m_uniformityStage s \<and> m_geoStage s' = m_geoStage s \<and>
    m_xDim s' = m_xDim s \<and> m_yDim s' = m_yDim s \<and> m_zDim s' = m_zDim s \<and>
    m_verticesNew s' = m_verticesNew s \<and> m_pixelsSrc s' = m_pixelsSrc s"
proof (cases "a = 0")
  case True
  with assms obtain s1 where "gaussInit rad sg s = Inr s1" "gaussConvolve a b rad s1 = Inr s'"
    by (auto simp: applyPartGaussSmooth_def bind_res_Inr_iff)
  then show ?thesis using gaussInit_frame [of rad sg s s1] gaussConvolve_frame [of a b rad s1 s']
    by simp
next
  case False
  with assms have "gaussConvolve a b rad s = Inr s'"
    by (simp add: applyPartGaussSmooth_def)
  then show ?thesis by (rule gaussConvolve_frame)
qed


lemma stepNotStarted_result:
  assumes "stepNotStarted maxLength s = Inr s'"
  shows "m_state s' = AV_STATE_PREPARE_GAUSS \<and> m_gaussStage s' = 0"
  using assms by (auto simp: stepNotStarted_def bind_res_Inr_iff)

lemma stepPrepareGauss_result:
  assumes "stepPrepareGauss s = Inr s'"
  shows "m_gaussStage s' = m_gaussStage s + 1 \<and>
    (if 18 \<le> m_gaussStage s + 1
     then m_state s' = AV_STATE_PREPARE_UNIFORMITY \<and> m_uniformityStage s' = 0
     else m_state s' = m_state s \<and> m_uniformityStage s' = m_uniformityStage s)"
proof -
  from assms obtain s1 where
    s1: "applyPartGaussSmooth
          \<lfloor>real_of_int (m_zDim s * (m_gaussStage s + 0)) / real_of_int ACT_VOL_NUM_SMOOTH_STAGES\<rfloor>
          \<lfloor>real_of_int (m_zDim s * (m_gaussStage s + 1)) / real_of_int ACT_VOL_NUM_SMOOTH_STAGES\<rfloor>
          2 1.8 s = Inr s1"
    and s': "s' = (let s2 = s1\<lparr>m_gaussStage := m_gaussStage s1 + 1\<rparr>
                  in if m_gaussStage s2 \<ge> ACT_VOL_NUM_SMOOTH_STAGES
                     then s2\<lparr>m_state := AV_STATE_PREPARE_UNIFORMITY, m_uniformityStage := 0\<rparr>
                     else s2)"
    by (auto simp: stepPrepareGauss_def Let_def bind_res_Inr_iff)
  from applyPartGaussSmooth_frame [OF s1] s' show ?thesis
    by (simp add: Let_def ACT_VOL_NUM_SMOOTH_STAGES_def)
qed

lemma stepPrepareUniformity_result:
  assumes "stepPrepareUniformity s = Inr s'"
  shows "m_uniformityStage s' = m_uniformityStage s + 1 \<and>
    (if m_uniformityStage s + 1 = 18
     then m_state s' = AV_STATE_UPDATE_GEO \<and> m_geoStage s' = 0
     else m_state s' = m_state s \<and> m_geoStage s' = m_geoStage s)"
proof (cases "m_uniformityStage s + 1 = 18")
  case True
  with assms obtain ok s1 where
    h: "getHistogram (s\<lparr>m_uniformityStage := m_uniformityStage s + 1\<rparr>) = Inr (ok, s1)"
    and s': "s' = (stopImageSmooth s1)\<lparr>m_geoStage := 0, m_state := AV_STATE_UPDATE_GEO\<rparr>"
    by (auto simp: stepPrepareUniformity_def Let_def bind_res_Inr_iff
        ACT_VOL_NUM_SMOOTH_STAGES_def)
  from getHistogram_shape [OF h] obtain hh p k i where
    "s1 = s\<lparr>m_uniformityStage := m_uniformityStage s + 1, m_histogram := hh,
       m_colorProbability := p, m_colorKoefs := k, m_indexMinColor := i\<rparr>"
    by blast
  with s' True show ?thesis by (simp add: stopImageSmooth_def)
next
  case False
  with assms show ?thesis
    by (auto simp: stepPrepareUniformity_def Let_def ACT_VOL_NUM_SMOOTH_STAGES_def)
qed

lemma stepUpdateGeo_result:
  assumes "stepUpdateGeo maxLength geo method s = Inr s'"
  shows "m_state s' = m_state s \<and> m_geoStage s' = m_geoStage s + 1 \<and>
    m_gaussStage s' = m_gaussStage s \<and> m_uniformityStage s' = m_uniformityStage s"
  using assms
  by (auto simp: stepUpdateGeo_def Let_def bind_res_Inr_iff
      updateGeoNormalsUniformityColors_def split: option.splits if_splits)

lemma updateGeo_finished:
  "m_state s = AV_STATE_FINISHED \<Longrightarrow> updateGeo maxLength cn geo method s = Inr (1, s, geo)"
  by (simp add: updateGeo_def)


lemma newFloat32Array_ok:
  "0 \<le> n \<Longrightarrow> n \<le> maxLength \<Longrightarrow> n < 2 ^ 51 \<Longrightarrow>
   newFloat32Array maxLength n = Inr (replicate (nat n) (Fin 0))"
  by (simp add: newFloat32Array_def)

lemma startImageSmooth_ok:
  assumes "m_imageGauss s \<noteq> None" "m_imageUniformity s \<noteq> None" "m_pixelsSrc s \<noteq> None"
    and "0 \<le> m_xDim s * m_yDim s * m_zDim s" "m_xDim s * m_yDim s * m_zDim s \<le> maxLength"
      "m_xDim s * m_yDim s * m_zDim s < 2 ^ 51"
  shows "\<exists>s'. startImageSmooth maxLength s = Inr s' \<and> m_imageSrc s' \<noteq> None \<and>
    m_imageGauss s' \<noteq> None \<and> m_pixelsSrc s' \<noteq> None"
  using assms
  by (auto simp: startImageSmooth_def Let_def newFloat32Array_ok)

lemma gaussInit_ok:
  assumes "m_imageSrc s \<noteq> None" "m_imageGauss s \<noteq> None"
  shows "\<exists>s'. gaussInit rad sg s = Inr s' \<and> m_gaussMatrix s' \<noteq> None \<and>
    m_imageGauss s' \<noteq> None \<and> m_pixelsSrc s' = m_pixelsSrc s \<and> m_imageSrc s' = m_imageSrc s"
  using assms
  by (auto simp: gaussInit_def Let_def split: prod.splits)

lemma gaussConvolve_ok:
  assumes "m_gaussMatrix s \<noteq> None" "m_imageGauss s \<noteq> None" "m_pixelsSrc s \<noteq> None"
  shows "\<exists>s'. gaussConvolve a b rad s = Inr s' \<and> m_gaussMatrix s' \<noteq> None \<and>
    m_imageGauss s' \<noteq> None \<and> m_pixelsSrc s' = m_pixelsSrc s \<and> m_imageSrc s' = m_imageSrc s"
  using assms
  by (auto simp: gaussConvolve_def Let_def)

lemma applyPartGaussSmooth_ok:
  assumes "m_imageSrc s \<noteq> None" "m_imageGauss s \<noteq> None" "m_pixelsSrc s \<noteq> None"
    and "a = 0 \<or> m_gaussMatrix s \<noteq> None"
  shows "\<exists>s'. applyPartGaussSmooth a b rad sg s = Inr s' \<and> m_gaussMatrix s' \<noteq> None \<and>
    m_imageGauss s' \<noteq> None \<and> m_pixelsSrc s' \<noteq> None \<and> m_imageSrc s' \<noteq> None"
proof (cases "a = 0")
  case True
  from gaussInit_ok [OF assms(1,2), of rad sg] obtain s1 where
    s1: "gaussInit rad sg s = Inr s1" "m_gaussMatrix s1 \<noteq> None" "m_imageGauss s1 \<noteq> None"
      "m_pixelsSrc s1 = m_pixelsSrc s" "m_imageSrc s1 = m_imageSrc s"
    by blast
  with assms have "m_pixelsSrc s1 \<noteq> None" by simp
  from gaussConvolve_ok [OF s1(2,3) this, of a b rad] s1 assms True show ?thesis
    by (auto simp: applyPartGaussSmooth_def)
next
  case False
  with assms have "m_gaussMatrix s \<noteq> None" by simp
  from gaussConvolve_ok [OF this assms(2,3), of a b rad] False assms show ?thesis
    by (auto simp: applyPartGaussSmooth_def)
qed

lemma updateGeo_first_call:
  assumes ns: "m_state s = AV_STATE_NOT_STARTED" and cn: "cn geo = (1, geo')"
    and bufs: "m_imageGauss s \<noteq> None" "m_imageUniformity s \<noteq> None" "m_pixelsSrc s \<noteq> None"
    and n: "0 \<le> m_xDim s * m_yDim s * m_zDim s" "m_xDim s * m_yDim s * m_zDim s \<le> maxLength"
      "m_xDim s * m_yDim s * m_zDim s < 2 ^ 51"
  shows "\<exists>s'. updateGeo maxLength cn geo method s = Inr (1, s', geo') \<and>
      m_state s' = AV_STATE_PREPARE_GAUSS \<and> m_gaussStage s' = 1 \<and> m_imageSrc s' \<noteq> None \<and>
      m_gaussMatrix s' \<noteq> None"
    and "statesWorked maxLength cn geo method s = [AV_STATE_NOT_STARTED, AV_STATE_PREPARE_GAUSS]"
proof -
  from startImageSmooth_ok [OF bufs n] obtain s0 where
    s0: "startImageSmooth maxLength s = Inr s0" "m_imageSrc s0 \<noteq> None" "m_imageGauss s0 \<noteq> None"
      "m_pixelsSrc s0 \<noteq> None" by blast
  define s1 where "s1 = s0\<lparr>m_gaussStage := 0, m_state := AV_STATE_PREPARE_GAUSS\<rparr>"
  have st1: "stepNotStarted maxLength s = Inr s1"
    by (simp add: stepNotStarted_def s0 s1_def)
  have s1: "m_imageSrc s1 \<noteq> None" "m_imageGauss s1 \<noteq> None" "m_pixelsSrc s1 \<noteq> None"
    "m_gaussStage s1 = 0" "m_state s1 = AV_STATE_PREPARE_GAUSS"
    using s0 by (simp_all add: s1_def)
  have s2: "\<exists>s2. applyPartGaussSmooth 0 b 2 1.8 s1 = Inr s2 \<and> m_gaussMatrix s2 \<noteq> None \<and>
       m_imageSrc s2 \<noteq> None" for b
    using applyPartGaussSmooth_ok [OF s1(1,2,3), of 0 b 2 "1.8"] by blast
  obtain s3 where st2: "stepPrepareGauss s1 = Inr s3" and s3: "m_gaussMatrix s3 \<noteq> None"
    "m_imageSrc s3 \<noteq> None"
  proof -
    from s2 obtain s2' where a: "applyPartGaussSmooth 0 \<lfloor>real_of_int (m_zDim s1 * (0 + 1))
        / real_of_int ACT_VOL_NUM_SMOOTH_STAGES\<rfloor> 2 1.8 s1 = Inr s2'"
      and b: "m_gaussMatrix s2' \<noteq> None" "m_imageSrc s2' \<noteq> None" by blast
    from applyPartGaussSmooth_frame [OF a] have "m_gaussStage s2' = 0"
      using s1 by simp
    with a b have "\<exists>s3. stepPrepareGauss s1 = Inr s3 \<and> m_gaussMatrix s3 \<noteq> None \<and>
        m_imageSrc s3 \<noteq> None"
      by (simp add: stepPrepareGauss_def Let_def s1 ACT_VOL_NUM_SMOOTH_STAGES_def)
    then show ?thesis using that by blast
  qed
  from stepPrepareGauss_result [OF st2] s1 have r3:
    "m_state s3 = AV_STATE_PREPARE_GAUSS" "m_gaussStage s3 = 1" by simp_all
  show "\<exists>s'. updateGeo maxLength cn geo method s = Inr (1, s', geo') \<and>
      m_state s' = AV_STATE_PREPARE_GAUSS \<and> m_gaussStage s' = 1 \<and> m_imageSrc s' \<noteq> None \<and>
      m_gaussMatrix s' \<noteq> None"
    using ns cn st1 st2 r3 s1 s3 by (simp add: updateGeo_def when_state_def)
  show "statesWorked maxLength cn geo method s = [AV_STATE_NOT_STARTED, AV_STATE_PREPARE_GAUSS]"
    using ns cn st1 st2 r3 s1 by (simp add: statesWorked_def when_state_def worked_def)
qed


section \<open>One call of the step function\<close>

lemmas worked_defs = statesWorked_def when_state_def worked_def Let_def

text \<open>
  The states whose block a call enters, whether the call returns or throws: at most
  two, and two only as a state and its successor.
\<close>

lemma statesWorked_cases:
  "statesWorked maxLength cn geo method s \<in> set
     [[], [AV_STATE_NOT_STARTED], [AV_STATE_NOT_STARTED, AV_STATE_PREPARE_GAUSS],
      [AV_STATE_PREPARE_GAUSS], [AV_STATE_PREPARE_GAUSS, AV_STATE_PREPARE_UNIFORMITY],
      [AV_STATE_PREPARE_UNIFORMITY], [AV_STATE_PREPARE_UNIFORMITY, AV_STATE_UPDATE_GEO],
      [AV_STATE_UPDATE_GEO]]"
proof (cases "m_state s")
  case AV_STATE_NA
  then show ?thesis by (simp add: worked_defs)
next
  case ns: AV_STATE_NOT_STARTED
  obtain ok g1 where cn: "cn geo = (ok, g1)" by (cases "cn geo")
  show ?thesis
  proof (cases "ok = 1")
    case False
    with ns cn show ?thesis by (simp add: worked_defs)
  next
    case True
    show ?thesis
    proof (cases "stepNotStarted maxLength s")
      case (Inl e)
      with ns cn True show ?thesis by (simp add: worked_defs)
    next
      case (Inr s1)
      from stepNotStarted_result [OF Inr] have s1:
        "m_state s1 = AV_STATE_PREPARE_GAUSS" "m_gaussStage s1 = 0" by simp_all
      show ?thesis
      proof (cases "stepPrepareGauss s1")
        case (Inl e)
        with ns cn True \<open>stepNotStarted maxLength s = Inr s1\<close> s1 show ?thesis
          by (simp add: worked_defs)
      next
        case s2: (Inr s2)
        from stepPrepareGauss_result [OF s2] s1
        have "m_state s2 = AV_STATE_PREPARE_GAUSS" by simp
        with ns cn True \<open>stepNotStarted maxLength s = Inr s1\<close> s1 s2 show ?thesis
          by (simp add: worked_defs)
      qed
    qed
  qed
next
  case pg: AV_STATE_PREPARE_GAUSS
  show ?thesis
  proof (cases "stepPrepareGauss s")
    case (Inl e)
    with pg show ?thesis by (simp add: worked_defs)
  next
    case s1: (Inr s1)
    show ?thesis
    proof (cases "18 \<le> m_gaussStage s + 1")
      case False
      with stepPrepareGauss_result [OF s1] pg
      have "m_state s1 = AV_STATE_PREPARE_GAUSS" by simp
      with pg s1 show ?thesis by (simp add: worked_defs)
    next
      case True
      with stepPrepareGauss_result [OF s1]
      have r1: "m_state s1 = AV_STATE_PREPARE_UNIFORMITY" "m_uniformityStage s1 = 0"
        by simp_all
      show ?thesis
      proof (cases "stepPrepareUniformity s1")
        case (Inl e)
        with pg s1 r1 show ?thesis by (simp add: worked_defs)
      next
        case s2: (Inr s2)
        from stepPrepareUniformity_result [OF s2] r1
        have "m_state s2 = AV_STATE_PREPARE_UNIFORMITY" by simp
        with pg s1 r1 s2 show ?thesis by (simp add: worked_defs)
      qed
    qed
  qed
next
  case pu: AV_STATE_PREPARE_UNIFORMITY
  show ?thesis
  proof (cases "stepPrepareUniformity s")
    case (Inl e)
    with pu show ?thesis by (simp add: worked_defs)
  next
    case s1: (Inr s1)
    from stepPrepareUniformity_result [OF s1] pu
    have "m_state s1 = AV_STATE_UPDATE_GEO \<or> m_state s1 = AV_STATE_PREPARE_UNIFORMITY"
      by (simp split: if_splits)
    with pu s1 show ?thesis by (auto simp add: worked_defs)
  qed
next
  case AV_STATE_UPDATE_GEO
  then show ?thesis by (simp add: worked_defs)
next
  case AV_STATE_FINISHED
  then show ?thesis by (simp add: worked_defs)
qed

text \<open>
  What a returning call does, state by state.
\<close>

lemma updateGeo_idle:
  assumes "m_state s = AV_STATE_NA \<or> m_state s = AV_STATE_FINISHED"
  shows "updateGeo maxLength cn geo method s = Inr (1, s, geo)"
    and "statesWorked maxLength cn geo method s = []"
  using assms by (auto simp: updateGeo_def worked_defs)

lemma updateGeo_not_started:
  assumes ns: "m_state s = AV_STATE_NOT_STARTED"
    and r: "updateGeo maxLength cn geo method s = Inr (ok, s', geo')"
  shows "(ok \<noteq> 1 \<and> s' = s \<and> statesWorked maxLength cn geo method s = [AV_STATE_NOT_STARTED]) \<or>
     (ok = 1 \<and>
      (\<exists>s0 s1. startImageSmooth maxLength s = Inr s0 \<and>
         applyPartGaussSmooth 0 \<lfloor>real_of_int (m_zDim s) / 18\<rfloor> 2 1.8
           (s0\<lparr>m_gaussStage := 0, m_state := AV_STATE_PREPARE_GAUSS\<rparr>) = Inr s1 \<and>
         s' = s1\<lparr>m_gaussStage := 1\<rparr>) \<and>
      m_state s' = AV_STATE_PREPARE_GAUSS \<and>
      statesWorked maxLength cn geo method s = [AV_STATE_NOT_STARTED, AV_STATE_PREPARE_GAUSS])"
proof -
  obtain okc g1 where cn: "cn geo = (okc, g1)" by (cases "cn geo")
  show ?thesis
  proof (cases "okc = 1")
    case False
    with ns cn r show ?thesis by (auto simp: updateGeo_def worked_defs)
  next
    case True
    from ns cn True r obtain sa where sa: "stepNotStarted maxLength s = Inr sa"
      by (cases "stepNotStarted maxLength s") (auto simp: updateGeo_def when_state_def)
    then obtain s0 where s0: "startImageSmooth maxLength s = Inr s0"
      and sa_eq: "sa = s0\<lparr>m_gaussStage := 0, m_state := AV_STATE_PREPARE_GAUSS\<rparr>"
      by (auto simp: stepNotStarted_def bind_res_Inr_iff)
    from startImageSmooth_frame [OF s0] sa_eq have fa:
      "m_state sa = AV_STATE_PREPARE_GAUSS" "m_gaussStage sa = 0" "m_zDim sa = m_zDim s"
      by simp_all
    from ns cn True r sa fa obtain sb where sb: "stepPrepareGauss sa = Inr sb"
      by (cases "stepPrepareGauss sa") (auto simp: updateGeo_def when_state_def)
    then obtain s1 where s1: "applyPartGaussSmooth 0 \<lfloor>real_of_int (m_zDim s) / 18\<rfloor> 2 1.8 sa = Inr s1"
      and sb_eq: "sb = s1\<lparr>m_gaussStage := m_gaussStage s1 + 1\<rparr>"
      using fa
      by (auto simp: stepPrepareGauss_def Let_def bind_res_Inr_iff ACT_VOL_NUM_SMOOTH_STAGES_def
          dest: applyPartGaussSmooth_frame split: if_splits)
    from applyPartGaussSmooth_frame [OF s1] fa sb_eq have fb:
      "m_state sb = AV_STATE_PREPARE_GAUSS" "sb = s1\<lparr>m_gaussStage := 1\<rparr>"
      by simp_all
    from ns cn True r sa fa sb fb have "s' = sb" "ok = 1"
      by (auto simp: updateGeo_def when_state_def)
    moreover have "statesWorked maxLength cn geo method s
        = [AV_STATE_NOT_STARTED, AV_STATE_PREPARE_GAUSS]"
      using ns cn True sa fa sb fb(1) by (simp add: worked_defs)
    ultimately show ?thesis using s0 s1 sa_eq fb by auto
  qed
qed

lemma updateGeo_prepare_gauss:
  assumes pg: "m_state s = AV_STATE_PREPARE_GAUSS"
    and r: "updateGeo maxLength cn geo method s = Inr (ok, s', geo')"
  shows "\<exists>s1. applyPartGaussSmooth \<lfloor>real_of_int (m_zDim s * m_gaussStage s) / 18\<rfloor>
           \<lfloor>real_of_int (m_zDim s * (m_gaussStage s + 1)) / 18\<rfloor> 2 1.8 s = Inr s1 \<and>
       (if m_gaussStage s + 1 < 18
        then s' = s1\<lparr>m_gaussStage := m_gaussStage s + 1\<rparr> \<and>
             statesWorked maxLength cn geo method s = [AV_STATE_PREPARE_GAUSS]
        else s' = s1\<lparr>m_gaussStage := m_gaussStage s + 1,
               m_state := AV_STATE_PREPARE_UNIFORMITY, m_uniformityStage := 1\<rparr> \<and>
             statesWorked maxLength cn geo method s
               = [AV_STATE_PREPARE_GAUSS, AV_STATE_PREPARE_UNIFORMITY])"
proof -
  from pg r obtain sb where sb: "stepPrepareGauss s = Inr sb"
    by (cases "stepPrepareGauss s") (auto simp: updateGeo_def when_state_def)
  then obtain s1 where s1: "applyPartGaussSmooth \<lfloor>real_of_int (m_zDim s * m_gaussStage s) / 18\<rfloor>
           \<lfloor>real_of_int (m_zDim s * (m_gaussStage s + 1)) / 18\<rfloor> 2 1.8 s = Inr s1"
    and sb_eq: "sb = (if 18 \<le> m_gaussStage s1 + 1
        then s1\<lparr>m_gaussStage := m_gaussStage s1 + 1,
               m_state := AV_STATE_PREPARE_UNIFORMITY, m_uniformityStage := 0\<rparr>
        else s1\<lparr>m_gaussStage := m_gaussStage s1 + 1\<rparr>)"
    by (auto simp: stepPrepareGauss_def Let_def bind_res_Inr_iff ACT_VOL_NUM_SMOOTH_STAGES_def)
  from applyPartGaussSmooth_frame [OF s1] pg have f1:
    "m_state s1 = AV_STATE_PREPARE_GAUSS" "m_gaussStage s1 = m_gaussStage s" by simp_all
  show ?thesis
  proof (cases "m_gaussStage s + 1 < 18")
    case True
    with sb_eq f1 have e: "sb = s1\<lparr>m_gaussStage := m_gaussStage s + 1\<rparr>"
      "m_state sb = AV_STATE_PREPARE_GAUSS" by simp_all
    with pg r sb have "s' = sb" by (auto simp: updateGeo_def when_state_def)
    moreover have "statesWorked maxLength cn geo method s = [AV_STATE_PREPARE_GAUSS]"
      using pg sb e(2) by (simp add: worked_defs)
    ultimately show ?thesis using s1 True e(1) by auto
  next
    case False
    with sb_eq f1 have e: "sb = s1\<lparr>m_gaussStage := m_gaussStage s + 1,
               m_state := AV_STATE_PREPARE_UNIFORMITY, m_uniformityStage := 0\<rparr>"
      by simp
    then have u: "stepPrepareUniformity sb = Inr (sb\<lparr>m_uniformityStage := 1\<rparr>)"
      "m_state sb = AV_STATE_PREPARE_UNIFORMITY"
      by (simp_all add: stepPrepareUniformity_def Let_def ACT_VOL_NUM_SMOOTH_STAGES_def)
    with pg r sb have "s' = sb\<lparr>m_uniformityStage := 1\<rparr>"
      by (auto simp: updateGeo_def when_state_def)
    moreover have "statesWorked maxLength cn geo method s
        = [AV_STATE_PREPARE_GAUSS, AV_STATE_PREPARE_UNIFORMITY]"
      using pg sb u by (simp add: worked_defs)
    ultimately show ?thesis using s1 False e by auto
  qed
qed

lemma stepUpdateGeo_state:
  assumes "stepUpdateGeo maxLength geo method s = Inr s'"
  shows "s' = s\<lparr>m_verticesNew :=
             Some (case m_verticesNew s of
                     Some v \<Rightarrow> v
                   | None \<Rightarrow> replicate (nat (gr_numVertices geo * 4)) (Fin 0)),
           m_geoStage := m_geoStage s + 1\<rparr>"
proof (cases "m_verticesNew s")
  case None
  with assms show ?thesis
    by (auto simp: stepUpdateGeo_def Let_def bind_res_Inr_iff newFloat32Array_def
        updateGeoNormalsUniformityColors_def split: if_splits)
next
  case (Some v)
  then have "s\<lparr>m_verticesNew := Some v\<rparr> = s" by simp
  with Some assms show ?thesis
    by (auto simp: stepUpdateGeo_def Let_def bind_res_Inr_iff
        updateGeoNormalsUniformityColors_def split: if_splits)
qed

lemma updateGeo_prepare_uniformity:
  assumes pu: "m_state s = AV_STATE_PREPARE_UNIFORMITY"
    and r: "updateGeo maxLength cn geo method s = Inr (ok, s', geo')"
  shows "if m_uniformityStage s + 1 \<noteq> 18
     then s' = s\<lparr>m_uniformityStage := m_uniformityStage s + 1\<rparr> \<and>
          statesWorked maxLength cn geo method s = [AV_STATE_PREPARE_UNIFORMITY]
     else (\<exists>s1. getHistogram (s\<lparr>m_uniformityStage := 18\<rparr>) = Inr (1, s1) \<and>
             stepUpdateGeo maxLength geo method
               ((stopImageSmooth s1)\<lparr>m_geoStage := 0, m_state := AV_STATE_UPDATE_GEO\<rparr>)
               = Inr s' \<and>
             s' = (stopImageSmooth s1)\<lparr>m_state := AV_STATE_UPDATE_GEO,
                    m_verticesNew :=
                      Some (case m_verticesNew s of
                              Some v \<Rightarrow> v
                            | None \<Rightarrow> replicate (nat (gr_numVertices geo * 4)) (Fin 0)),
                    m_geoStage := 1\<rparr>) \<and>
          statesWorked maxLength cn geo method s
            = [AV_STATE_PREPARE_UNIFORMITY, AV_STATE_UPDATE_GEO]"
proof (cases "m_uniformityStage s + 1 = 18")
  case False
  then have u: "stepPrepareUniformity s = Inr (s\<lparr>m_uniformityStage := m_uniformityStage s + 1\<rparr>)"
    by (simp add: stepPrepareUniformity_def Let_def ACT_VOL_NUM_SMOOTH_STAGES_def)
  with pu r have "s' = s\<lparr>m_uniformityStage := m_uniformityStage s + 1\<rparr>"
    by (auto simp: updateGeo_def when_state_def)
  moreover have "statesWorked maxLength cn geo method s = [AV_STATE_PREPARE_UNIFORMITY]"
    using pu u by (simp add: worked_defs)
  ultimately show ?thesis using False by simp
next
  case True
  from pu r obtain sc where sc: "stepPrepareUniformity s = Inr sc"
    by (cases "stepPrepareUniformity s") (auto simp: updateGeo_def when_state_def)
  with True obtain okh s1 where
    h: "getHistogram (s\<lparr>m_uniformityStage := 18\<rparr>) = Inr (okh, s1)"
    and sc_eq: "sc = (stopImageSmooth s1)\<lparr>m_geoStage := 0, m_state := AV_STATE_UPDATE_GEO\<rparr>"
    by (auto simp: stepPrepareUniformity_def Let_def bind_res_Inr_iff
        ACT_VOL_NUM_SMOOTH_STAGES_def)
  from getHistogram_shape [OF h] have okh: "okh = 1" and v: "m_verticesNew s1 = m_verticesNew s"
    by auto
  from sc_eq v have fc: "m_state sc = AV_STATE_UPDATE_GEO" "m_geoStage sc = 0"
    "m_verticesNew sc = m_verticesNew s"
    by (simp_all add: stopImageSmooth_def)
  from pu r sc fc obtain sd where sd: "stepUpdateGeo maxLength geo method sc = Inr sd"
    by (cases "stepUpdateGeo maxLength geo method sc") (auto simp: updateGeo_def when_state_def)
  with pu r sc fc have "s' = sd" by (auto simp: updateGeo_def when_state_def)
  moreover from stepUpdateGeo_state [OF sd] fc sc_eq
  have "sd = (stopImageSmooth s1)\<lparr>m_state := AV_STATE_UPDATE_GEO,
                    m_verticesNew :=
                      Some (case m_verticesNew s of
                              Some v \<Rightarrow> v
                            | None \<Rightarrow> replicate (nat (gr_numVertices geo * 4)) (Fin 0)),
                    m_geoStage := 1\<rparr>"
    by simp
  moreover have "statesWorked maxLength cn geo method s
      = [AV_STATE_PREPARE_UNIFORMITY, AV_STATE_UPDATE_GEO]"
    using pu sc fc by (simp add: worked_defs)
  ultimately show ?thesis using True h okh sc_eq sd by auto
qed

lemma updateGeo_update_geo:
  assumes ug: "m_state s = AV_STATE_UPDATE_GEO"
    and r: "updateGeo maxLength cn geo method s = Inr (ok, s', geo')"
  shows "stepUpdateGeo maxLength geo method s = Inr s' \<and>
     s' = s\<lparr>m_verticesNew :=
              Some (case m_verticesNew s of
                      Some v \<Rightarrow> v
                    | None \<Rightarrow> replicate (nat (gr_numVertices geo * 4)) (Fin 0)),
            m_geoStage := m_geoStage s + 1\<rparr> \<and>
     statesWorked maxLength cn geo method s = [AV_STATE_UPDATE_GEO]"
proof -
  from ug r have sd: "stepUpdateGeo maxLength geo method s = Inr s'"
    by (cases "stepUpdateGeo maxLength geo method s") (auto simp: updateGeo_def when_state_def)
  from stepUpdateGeo_result [OF sd] stepUpdateGeo_state [OF sd] ug sd show ?thesis
    by (simp add: worked_defs)
qed

text \<open>
  Claim C1, as amended. A call of \<^verbatim>\<open>updateGeo\<close> enters at most two blocks, and two
  only as a state and its successor, on the call where the state hands over; then the
  work of both is done. A call that returns does exactly this:

  \<^item> in \<open>NA\<close> or \<open>FINISHED\<close>, nothing;
  \<^item> in \<open>NOT_STARTED\<close>, it asks for the normals and, when they fail, returns their
    status; otherwise it runs \<^verbatim>\<open>startImageSmooth\<close> and, in the same call, smooths
    exactly one band, the slices from 0 to \<open>\<lfloor>zDim / 18\<rfloor>\<close>, leaving the band counter
    at 1;
  \<^item> in \<open>PREPARE_GAUSS\<close>, it smooths exactly one band (one call of
    \<^verbatim>\<open>applyPartGaussSmooth\<close>, for the slices from \<open>\<lfloor>zDim * stage / 18\<rfloor>\<close> to
    \<open>\<lfloor>zDim * (stage + 1) / 18\<rfloor>\<close>) and advances the band counter by one; when the
    counter reaches 18 the same call makes the first uniformity pass, without a
    classification;
  \<^item> in \<open>PREPARE_UNIFORMITY\<close>, it advances the uniformity counter by one; on the pass
    that brings the counter to 18 it classifies once (\<^verbatim>\<open>getHistogram\<close>), releases
    the smoothing buffers and, in the same call, makes one relaxation pass, leaving the
    relaxation counter at 1;
  \<^item> in \<open>UPDATE_GEO\<close>, it makes exactly one relaxation pass: the block runs once,
    allocates the vertex scratch buffer if there is none and advances the relaxation
    counter by one, and nothing else of the object changes.

  Whenever the state after the call differs from the state before, the call has done
  the work of both.
\<close>

theorem updateGeo_work_per_call:
  "statesWorked maxLength cn geo method s \<in> set
     [[], [AV_STATE_NOT_STARTED], [AV_STATE_NOT_STARTED, AV_STATE_PREPARE_GAUSS],
      [AV_STATE_PREPARE_GAUSS], [AV_STATE_PREPARE_GAUSS, AV_STATE_PREPARE_UNIFORMITY],
      [AV_STATE_PREPARE_UNIFORMITY], [AV_STATE_PREPARE_UNIFORMITY, AV_STATE_UPDATE_GEO],
      [AV_STATE_UPDATE_GEO]] \<and>
   (updateGeo maxLength cn geo method s = Inr (ok, s', geo') \<longrightarrow>
    (case m_state s of
       AV_STATE_NA \<Rightarrow> s' = s \<and> statesWorked maxLength cn geo method s = []
     | AV_STATE_FINISHED \<Rightarrow> s' = s \<and> statesWorked maxLength cn geo method s = []
     | AV_STATE_NOT_STARTED \<Rightarrow>
         (ok \<noteq> 1 \<and> s' = s \<and>
          statesWorked maxLength cn geo method s = [AV_STATE_NOT_STARTED]) \<or>
         (ok = 1 \<and>
          (\<exists>s0 s1. startImageSmooth maxLength s = Inr s0 \<and>
             applyPartGaussSmooth 0 \<lfloor>real_of_int (m_zDim s) / 18\<rfloor> 2 1.8
               (s0\<lparr>m_gaussStage := 0, m_state := AV_STATE_PREPARE_GAUSS\<rparr>) = Inr s1 \<and>
             s' = s1\<lparr>m_gaussStage := 1\<rparr>) \<and>
          m_state s' = AV_STATE_PREPARE_GAUSS \<and>
          statesWorked maxLength cn geo method s
            = [AV_STATE_NOT_STARTED, AV_STATE_PREPARE_GAUSS])
     | AV_STATE_PREPARE_GAUSS \<Rightarrow>
         (\<exists>s1. applyPartGaussSmooth \<lfloor>real_of_int (m_zDim s * m_gaussStage s) / 18\<rfloor>
              \<lfloor>real_of_int (m_zDim s * (m_gaussStage s + 1)) / 18\<rfloor> 2 1.8 s = Inr s1 \<and>
            (if m_gaussStage s + 1 < 18
             then s' = s1\<lparr>m_gaussStage := m_gaussStage s + 1\<rparr> \<and>
                  statesWorked maxLength cn geo method s = [AV_STATE_PREPARE_GAUSS]
             else s' = s1\<lparr>m_gaussStage := m_gaussStage s + 1,
                    m_state := AV_STATE_PREPARE_UNIFORMITY, m_uniformityStage := 1\<rparr> \<and>
                  statesWorked maxLength cn geo method s
                    = [AV_STATE_PREPARE_GAUSS, AV_STATE_PREPARE_UNIFORMITY]))
     | AV_STATE_PREPARE_UNIFORMITY \<Rightarrow>
         (if m_uniformityStage s + 1 \<noteq> 18
          then s' = s\<lparr>m_uniformityStage := m_uniformityStage s + 1\<rparr> \<and>
               statesWorked maxLength cn geo method s = [AV_STATE_PREPARE_UNIFORMITY]
          else (\<exists>s1. getHistogram (s\<lparr>m_uniformityStage := 18\<rparr>) = Inr (1, s1) \<and>
                  stepUpdateGeo maxLength geo method
                    ((stopImageSmooth s1)\<lparr>m_geoStage := 0, m_state := AV_STATE_UPDATE_GEO\<rparr>)
                    = Inr s' \<and>
                  s' = (stopImageSmooth s1)\<lparr>m_state := AV_STATE_UPDATE_GEO,
                         m_verticesNew :=
                           Some (case m_verticesNew s of
                                   Some v \<Rightarrow> v
                                 | None \<Rightarrow> replicate (nat (gr_numVertices geo * 4)) (Fin 0)),
                         m_geoStage := 1\<rparr>) \<and>
               statesWorked maxLength cn geo method s
                 = [AV_STATE_PREPARE_UNIFORMITY, AV_STATE_UPDATE_GEO])
     | AV_STATE_UPDATE_GEO \<Rightarrow>
         stepUpdateGeo maxLength geo method s = Inr s' \<and>
         s' = s\<lparr>m_verticesNew :=
                  Some (case m_verticesNew s of
                          Some v \<Rightarrow> v
                        | None \<Rightarrow> replicate (nat (gr_numVertices geo * 4)) (Fin 0)),
                m_geoStage := m_geoStage s + 1\<rparr> \<and>
         statesWorked maxLength cn geo method s = [AV_STATE_UPDATE_GEO]) \<and>
    (m_state s' \<noteq> m_state s \<longrightarrow>
       statesWorked maxLength cn geo method s = [m_state s, m_state s']))"
proof (intro conjI impI)
  show "statesWorked maxLength cn geo method s \<in> set
     [[], [AV_STATE_NOT_STARTED], [AV_STATE_NOT_STARTED, AV_STATE_PREPARE_GAUSS],
      [AV_STATE_PREPARE_GAUSS], [AV_STATE_PREPARE_GAUSS, AV_STATE_PREPARE_UNIFORMITY],
      [AV_STATE_PREPARE_UNIFORMITY], [AV_STATE_PREPARE_UNIFORMITY, AV_STATE_UPDATE_GEO],
      [AV_STATE_UPDATE_GEO]]"
    by (rule statesWorked_cases)
next
  assume r: "updateGeo maxLength cn geo method s = Inr (ok, s', geo')"
  show "case m_state s of
       AV_STATE_NA \<Rightarrow> s' = s \<and> statesWorked maxLength cn geo method s = []
     | AV_STATE_FINISHED \<Rightarrow> s' = s \<and> statesWorked maxLength cn geo method s = []
     | AV_STATE_NOT_STARTED \<Rightarrow>
         (ok \<noteq> 1 \<and> s' = s \<and>
          statesWorked maxLength cn geo method s = [AV_STATE_NOT_STARTED]) \<or>
         (ok = 1 \<and>
          (\<exists>s0 s1. startImageSmooth maxLength s = Inr s0 \<and>
             applyPartGaussSmooth 0 \<lfloor>real_of_int (m_zDim s) / 18\<rfloor> 2 1.8
               (s0\<lparr>m_gaussStage := 0, m_state := AV_STATE_PREPARE_GAUSS\<rparr>) = Inr s1 \<and>
             s' = s1\<lparr>m_gaussStage := 1\<rparr>) \<and>
          m_state s' = AV_STATE_PREPARE_GAUSS \<and>
          statesWorked maxLength cn geo method s
            = [AV_STATE_NOT_STARTED, AV_STATE_PREPARE_GAUSS])
     | AV_STATE_PREPARE_GAUSS \<Rightarrow>
         (\<exists>s1. applyPartGaussSmooth \<lfloor>real_of_int (m_zDim s * m_gaussStage s) / 18\<rfloor>
              \<lfloor>real_of_int (m_zDim s * (m_gaussStage s + 1)) / 18\<rfloor> 2 1.8 s = Inr s1 \<and>
            (if m_gaussStage s + 1 < 18
             then s' = s1\<lparr>m_gaussStage := m_gaussStage s + 1\<rparr> \<and>
                  statesWorked maxLength cn geo method s = [AV_STATE_PREPARE_GAUSS]
             else s' = s1\<lparr>m_gaussStage := m_gaussStage s + 1,
                    m_state := AV_STATE_PREPARE_UNIFORMITY, m_uniformityStage := 1\<rparr> \<and>
                  statesWorked maxLength cn geo method s
                    = [AV_STATE_PREPARE_GAUSS, AV_STATE_PREPARE_UNIFORMITY]))
     | AV_STATE_PREPARE_UNIFORMITY \<Rightarrow>
         (if m_uniformityStage s + 1 \<noteq> 18
          then s' = s\<lparr>m_uniformityStage := m_uniformityStage s + 1\<rparr> \<and>
               statesWorked maxLength cn geo method s = [AV_STATE_PREPARE_UNIFORMITY]
          else (\<exists>s1. getHistogram (s\<lparr>m_uniformityStage := 18\<rparr>) = Inr (1, s1) \<and>
                  stepUpdateGeo maxLength geo method
                    ((stopImageSmooth s1)\<lparr>m_geoStage := 0, m_state := AV_STATE_UPDATE_GEO\<rparr>)
                    = Inr s' \<and>
                  s' = (stopImageSmooth s1)\<lparr>m_state := AV_STATE_UPDATE_GEO,
                         m_verticesNew :=
                           Some (case m_verticesNew s of
                                   Some v \<Rightarrow> v
                                 | None \<Rightarrow> replicate (nat (gr_numVertices geo * 4)) (Fin 0)),
                         m_geoStage := 1\<rparr>) \<and>
               statesWorked maxLength cn geo method s
                 = [AV_STATE_PREPARE_UNIFORMITY, AV_STATE_UPDATE_GEO])
     | AV_STATE_UPDATE_GEO \<Rightarrow>
         stepUpdateGeo maxLength geo method s = Inr s' \<and>
         s' = s\<lparr>m_verticesNew :=
                  Some (case m_verticesNew s of
                          Some v \<Rightarrow> v
                        | None \<Rightarrow> replicate (nat (gr_numVertices geo * 4)) (Fin 0)),
                m_geoStage := m_geoStage s + 1\<rparr> \<and>
         statesWorked maxLength cn geo method s = [AV_STATE_UPDATE_GEO]"
  proof (cases "m_state s")
    case AV_STATE_NA
    then have "m_state s = AV_STATE_NA \<or> m_state s = AV_STATE_FINISHED" by simp
    from updateGeo_idle [OF this] r AV_STATE_NA show ?thesis by simp
  next
    case AV_STATE_NOT_STARTED
    with updateGeo_not_started [OF _ r] show ?thesis by simp
  next
    case AV_STATE_PREPARE_GAUSS
    with updateGeo_prepare_gauss [OF _ r] show ?thesis by simp
  next
    case AV_STATE_PREPARE_UNIFORMITY
    with updateGeo_prepare_uniformity [OF _ r] show ?thesis by simp
  next
    case AV_STATE_UPDATE_GEO
    with updateGeo_update_geo [OF _ r] show ?thesis by simp
  next
    case AV_STATE_FINISHED
    then have "m_state s = AV_STATE_NA \<or> m_state s = AV_STATE_FINISHED" by simp
    from updateGeo_idle [OF this] r AV_STATE_FINISHED show ?thesis by simp
  qed
next
  assume r: "updateGeo maxLength cn geo method s = Inr (ok, s', geo')"
    and ne: "m_state s' \<noteq> m_state s"
  show "statesWorked maxLength cn geo method s = [m_state s, m_state s']"
  proof (cases "m_state s")
    case AV_STATE_NA
    then have "m_state s = AV_STATE_NA \<or> m_state s = AV_STATE_FINISHED" by simp
    from updateGeo_idle [OF this] r ne show ?thesis by simp
  next
    case AV_STATE_NOT_STARTED
    with updateGeo_not_started [OF _ r] ne show ?thesis by auto
  next
    case AV_STATE_PREPARE_GAUSS
    from updateGeo_prepare_gauss [OF AV_STATE_PREPARE_GAUSS r] obtain s1 where
      s1: "applyPartGaussSmooth \<lfloor>real_of_int (m_zDim s * m_gaussStage s) / 18\<rfloor>
          \<lfloor>real_of_int (m_zDim s * (m_gaussStage s + 1)) / 18\<rfloor> 2 1.8 s = Inr s1"
      and c: "if m_gaussStage s + 1 < 18
        then s' = s1\<lparr>m_gaussStage := m_gaussStage s + 1\<rparr> \<and>
             statesWorked maxLength cn geo method s = [AV_STATE_PREPARE_GAUSS]
        else s' = s1\<lparr>m_gaussStage := m_gaussStage s + 1,
               m_state := AV_STATE_PREPARE_UNIFORMITY, m_uniformityStage := 1\<rparr> \<and>
             statesWorked maxLength cn geo method s
               = [AV_STATE_PREPARE_GAUSS, AV_STATE_PREPARE_UNIFORMITY]"
      by blast
    from applyPartGaussSmooth_frame [OF s1] have "m_state s1 = m_state s" by simp
    with c ne AV_STATE_PREPARE_GAUSS show ?thesis by (auto split: if_splits)
  next
    case AV_STATE_PREPARE_UNIFORMITY
    with updateGeo_prepare_uniformity [OF _ r] ne show ?thesis by (auto split: if_splits)
  next
    case AV_STATE_UPDATE_GEO
    with updateGeo_update_geo [OF _ r] ne show ?thesis by simp
  next
    case AV_STATE_FINISHED
    then have "m_state s = AV_STATE_NA \<or> m_state s = AV_STATE_FINISHED" by simp
    from updateGeo_idle [OF this] r ne show ?thesis by simp
  qed
qed

theorem updateGeo_work_per_call_witness:
  "(\<exists>s0 s1 s'. updateGeo example_maxLength normals_ok example_mesh AV_METHOD_ALL example_engine
        = Inr (1, s', example_mesh) \<and>
      startImageSmooth example_maxLength example_engine = Inr s0 \<and>
      applyPartGaussSmooth 0 0 2 1.8
        (s0\<lparr>m_gaussStage := 0, m_state := AV_STATE_PREPARE_GAUSS\<rparr>) = Inr s1 \<and>
      s' = s1\<lparr>m_gaussStage := 1\<rparr> \<and> m_state s' = AV_STATE_PREPARE_GAUSS) \<and>
   statesWorked example_maxLength normals_ok example_mesh AV_METHOD_ALL example_engine
     = [AV_STATE_NOT_STARTED, AV_STATE_PREPARE_GAUSS] \<and>
   updateGeo example_maxLength normals_ok example_mesh AV_METHOD_ALL
     (example_engine\<lparr>m_state := AV_STATE_UPDATE_GEO\<rparr>)
     = Inr (1, example_engine\<lparr>m_state := AV_STATE_UPDATE_GEO,
              m_verticesNew := Some (replicate 4 (Fin 0)), m_geoStage := 0\<rparr>, example_mesh) \<and>
   statesWorked example_maxLength normals_ok example_mesh AV_METHOD_ALL
     (example_engine\<lparr>m_state := AV_STATE_UPDATE_GEO\<rparr>) = [AV_STATE_UPDATE_GEO]"
proof -
  have a: "m_state example_engine = AV_STATE_NOT_STARTED"
    and b: "normals_ok example_mesh = (1, example_mesh)"
    and c: "m_imageGauss example_engine \<noteq> None" "m_imageUniformity example_engine \<noteq> None"
      "m_pixelsSrc example_engine \<noteq> None"
    and d: "0 \<le> m_xDim example_engine * m_yDim example_engine * m_zDim example_engine"
      "m_xDim example_engine * m_yDim example_engine * m_zDim example_engine \<le> example_maxLength"
      "m_xDim example_engine * m_yDim example_engine * m_zDim example_engine < 2 ^ 51"
    and z: "m_zDim example_engine = 2"
    by (simp_all add: example_engine_def normals_ok_def example_maxLength_def)
  from updateGeo_first_call [of example_engine normals_ok example_mesh example_mesh
      example_maxLength AV_METHOD_ALL, OF a b c d]
  obtain s' where r: "updateGeo example_maxLength normals_ok example_mesh AV_METHOD_ALL
      example_engine = Inr (1, s', example_mesh)" by blast
  have u: "updateGeo example_maxLength normals_ok example_mesh AV_METHOD_ALL
     (example_engine\<lparr>m_state := AV_STATE_UPDATE_GEO\<rparr>)
     = Inr (1, example_engine\<lparr>m_state := AV_STATE_UPDATE_GEO,
              m_verticesNew := Some (replicate 4 (Fin 0)), m_geoStage := 0\<rparr>, example_mesh)"
    by (simp add: updateGeo_def when_state_def stepUpdateGeo_def newFloat32Array_def
        updateGeoNormalsUniformityColors_def example_engine_def example_mesh_def
        example_maxLength_def constructor_def normals_ok_def Let_def AV_METHOD_ALL_def
        AV_METHOD_NORMALS_def AV_METHOD_UNIFORMITY_def AV_METHOD_COLOR_KOEFS_def)
  from updateGeo_work_per_call [of example_maxLength normals_ok example_mesh AV_METHOD_ALL
      example_engine 1 s' example_mesh] r a z
  have first: "(\<exists>s0 s1. startImageSmooth example_maxLength example_engine = Inr s0 \<and>
      applyPartGaussSmooth 0 0 2 1.8
        (s0\<lparr>m_gaussStage := 0, m_state := AV_STATE_PREPARE_GAUSS\<rparr>) = Inr s1 \<and>
      s' = s1\<lparr>m_gaussStage := 1\<rparr>) \<and> m_state s' = AV_STATE_PREPARE_GAUSS \<and>
    statesWorked example_maxLength normals_ok example_mesh AV_METHOD_ALL example_engine
      = [AV_STATE_NOT_STARTED, AV_STATE_PREPARE_GAUSS]"
    by simp
  from updateGeo_work_per_call [of example_maxLength normals_ok example_mesh AV_METHOD_ALL
      "example_engine\<lparr>m_state := AV_STATE_UPDATE_GEO\<rparr>" 1
      "example_engine\<lparr>m_state := AV_STATE_UPDATE_GEO,
              m_verticesNew := Some (replicate 4 (Fin 0)), m_geoStage := 0\<rparr>" example_mesh] u
  have later: "statesWorked example_maxLength normals_ok example_mesh AV_METHOD_ALL
     (example_engine\<lparr>m_state := AV_STATE_UPDATE_GEO\<rparr>) = [AV_STATE_UPDATE_GEO]"
    by simp
  from first r u later show ?thesis by blast
qed

text \<open>
  Claim C1 fails as stated on the first call after \<^verbatim>\<open>create\<close>: that call does the
  work of \<open>NOT_STARTED\<close> and smooths the first band, leaving the band counter at 1.
\<close>

lemma create_example_engine:
  "create example_maxLength 2 2 2 (replicate 8 (Fin 100)) constructor
     = Inr (1, example_engine)"
  by (simp add: create_def newFloat32Array_def example_engine_def constructor_def Let_def
      example_maxLength_def)

theorem first_call_works_two_states:
  "statesWorked example_maxLength normals_ok example_mesh AV_METHOD_ALL example_engine
     = [AV_STATE_NOT_STARTED, AV_STATE_PREPARE_GAUSS] \<and>
   map_sum id (\<lambda>(ok, s, geo). (ok, m_state s, m_gaussStage s, geo))
     (updateGeo example_maxLength normals_ok example_mesh AV_METHOD_ALL example_engine)
     = Inr (1, AV_STATE_PREPARE_GAUSS, 1, example_mesh)"
proof -
  have a: "m_state example_engine = AV_STATE_NOT_STARTED"
    and b: "normals_ok example_mesh = (1, example_mesh)"
    and c: "m_imageGauss example_engine \<noteq> None" "m_imageUniformity example_engine \<noteq> None"
      "m_pixelsSrc example_engine \<noteq> None"
    and d: "0 \<le> m_xDim example_engine * m_yDim example_engine * m_zDim example_engine"
      "m_xDim example_engine * m_yDim example_engine * m_zDim example_engine \<le> example_maxLength"
      "m_xDim example_engine * m_yDim example_engine * m_zDim example_engine < 2 ^ 51"
    by (simp_all add: example_engine_def normals_ok_def example_maxLength_def)
  from updateGeo_first_call [of example_engine normals_ok example_mesh example_mesh
      example_maxLength AV_METHOD_ALL, OF a b c d]
  show ?thesis by auto
qed

text \<open>
  Claim C9. In the state \<open>FINISHED\<close> a call of \<^verbatim>\<open>updateGeo\<close> returns 1 and leaves
  the object (its state, its buffers) and the mesh as they are, and so does any
  sequence of calls, whatever the methods.
\<close>

theorem updateGeo_finished_noop:
  "m_state s = AV_STATE_FINISHED \<Longrightarrow>
   updateGeo maxLength cn geo method s = Inr (1, s, geo) \<and>
   updateGeoCalls maxLength cn methods s geo = Inr (map (\<lambda>method. 1) methods, s, geo)"
proof (induction methods)
  case Nil
  then show ?case by (simp add: updateGeo_finished)
next
  case (Cons m ms)
  then show ?case by (simp add: updateGeo_finished)
qed

theorem updateGeo_finished_noop_witness:
  "updateGeoCalls example_maxLength normals_ok [AV_METHOD_ALL, AV_METHOD_NORMALS, 0]
     (example_engine\<lparr>m_state := AV_STATE_FINISHED\<rparr>) example_mesh
   = Inr ([1, 1, 1], example_engine\<lparr>m_state := AV_STATE_FINISHED\<rparr>, example_mesh)"
  using updateGeo_finished_noop [of "example_engine\<lparr>m_state := AV_STATE_FINISHED\<rparr>"
      example_maxLength normals_ok example_mesh AV_METHOD_ALL "[AV_METHOD_ALL, AV_METHOD_NORMALS, 0]"]
  by (simp del: updateGeoCalls.simps)

section \<open>The driver and create\<close>

text \<open>
  Claim C2. When a dimension is at most 1 or at least 8192, \<^verbatim>\<open>skullRemove\<close> returns
  the negative status \<open>-1\<close> and leaves the destination volume (and the object) as
  it was.
\<close>

theorem skullRemove_bad_dimensions:
  "xDim \<le> 1 \<or> yDim \<le> 1 \<or> zDim \<le> 1 \<or> 8192 \<le> xDim \<or> 8192 \<le> yDim \<or> 8192 \<le> zDim \<Longrightarrow>
   skullRemove maxLength ext xDim yDim zDim volTexSrc volTexDst needCreateMask needLog s
     = Inr (- 1, s, volTexDst)"
  by (auto simp: skullRemove_def Let_def)

theorem skullRemove_bad_dimensions_witness:
  "skullRemove example_maxLength example_external 1 64 64 [] [Fin 7, Fin 9] False False
     constructor
     = Inr (- 1, constructor, [Fin 7, Fin 9]) \<and>
   skullRemove example_maxLength example_external 64 8192 64 [] [Fin 7, Fin 9] False False
     constructor
     = Inr (- 1, constructor, [Fin 7, Fin 9])"
  using skullRemove_bad_dimensions [of 1 64 64 example_maxLength example_external "[]"
        "[Fin 7, Fin 9]" False False constructor]
    skullRemove_bad_dimensions [of 64 8192 64 example_maxLength example_external "[]"
        "[Fin 7, Fin 9]" False False constructor]
  by simp

text \<open>
  Claim C6 fails as stated: \<^verbatim>\<open>create\<close> checks no dimension. With the dimensions
  \<open>1, 8192, 1\<close> it returns 1 and allocates.
\<close>

theorem create_ignores_dimension_bounds:
  "create example_maxLength 1 8192 1 [] constructor =
     Inr (1, constructor\<lparr>m_state := AV_STATE_NOT_STARTED, m_pixelsSrc := Some [],
       m_xDim := 1, m_yDim := 8192, m_zDim := 1,
       m_imageGauss := Some (replicate 8192 (Fin 0)),
       m_imageUniformity := Some (replicate 8192 (Fin 0)),
       m_verticesNew := None\<rparr>)"
  by (simp add: create_def newFloat32Array_def Let_def example_maxLength_def)

text \<open>
  Claim C6, as amended. \<^verbatim>\<open>create\<close> checks no dimension and never reports an error
  status. When the product \<open>xDim * yDim * zDim\<close> is a length that can be allocated
  (not negative, not above the limit of the engine and below \<open>2\<^sup>5\<^sup>1\<close>) it returns 1,
  sets the state to \<open>NOT_STARTED\<close>, records the source volume and the dimensions,
  allocates the smoothed and the uniformity volume zero-filled with exactly
  \<open>xDim * yDim * zDim\<close> elements and clears the vertex scratch buffer; no other
  field changes. For every other product the allocation throws a RangeError and
  \<^verbatim>\<open>create\<close> returns nothing. (The bounds are checked by \<^verbatim>\<open>skullRemove\<close> before it
  calls \<^verbatim>\<open>create\<close>.)
\<close>

theorem create_allocates:
  "create maxLength xDim yDim zDim volTexSrc s =
     (if 0 \<le> xDim * yDim * zDim \<and> xDim * yDim * zDim \<le> maxLength \<and>
         xDim * yDim * zDim < 2 ^ 51
      then Inr (1, s\<lparr>m_state := AV_STATE_NOT_STARTED, m_pixelsSrc := Some volTexSrc,
             m_xDim := xDim, m_yDim := yDim, m_zDim := zDim,
             m_imageGauss := Some (replicate (nat (xDim * yDim * zDim)) (Fin 0)),
             m_imageUniformity := Some (replicate (nat (xDim * yDim * zDim)) (Fin 0)),
             m_verticesNew := None\<rparr>)
      else Inl RangeError)"
  by (auto simp: create_def newFloat32Array_def Let_def)

theorem create_allocates_witness:
  "create example_maxLength 2 2 2 (replicate 8 (Fin 100)) constructor
     = Inr (1, example_engine) \<and>
   create example_maxLength 8191 8191 8191 [] constructor = Inl RangeError \<and>
   create example_maxLength (- 1) 2 2 [] constructor = Inl RangeError"
  using create_allocates [of example_maxLength 2 2 2 "replicate 8 (Fin 100)" constructor]
    create_allocates [of example_maxLength 8191 8191 8191 "[]" constructor]
    create_allocates [of example_maxLength "- 1" 2 2 "[]" constructor]
  by (simp add: example_engine_def example_maxLength_def)

section \<open>Typed arrays and loops\<close>

lemma is_index_of_int: "is_index (of_int i) n \<longleftrightarrow> 0 \<le> i \<and> i < int n"
  by (auto simp: is_index_def)

lemma is_index_of_nat: "is_index (real j) n \<longleftrightarrow> j < n"
  by (auto simp: is_index_def)

lemma ta_get_of_int:
  "ta_get a (of_int i) = (if 0 \<le> i \<and> i < int (length a) then a ! nat i else NaN)"
  by (simp add: ta_get_def is_index_of_int)

lemma ta_set_of_int:
  "ta_set a (of_int i) v = (if 0 \<le> i \<and> i < int (length a) then a[nat i := v] else a)"
  by (simp add: ta_set_def is_index_of_int)

lemma ta_get_of_nat: "ta_get a (real j) = (if j < length a then a ! j else NaN)"
  by (simp add: ta_get_def is_index_of_nat)

lemma ta_set_of_nat: "ta_set a (real j) v = (if j < length a then a[j := v] else a)"
  by (simp add: ta_set_def is_index_of_nat)

lemma length_ta_set [simp]: "length (ta_set a k v) = length a"
  by (simp add: ta_set_def)

lemma for_int_empty: "hi \<le> lo \<Longrightarrow> for_int lo hi f st = st"
  by (simp add: for_int_def)

lemma for_int_snoc: "lo \<le> hi \<Longrightarrow> for_int lo (hi + 1) f st = f hi (for_int lo hi f st)"
proof -
  assume "lo \<le> hi"
  then have "[lo..hi] = [lo..hi - 1] @ [hi]"
    using upto_rec2 [of lo hi] by simp
  then show ?thesis by (simp add: for_int_def)
qed

lemma for_int_split:
  assumes "lo \<le> mid" "mid \<le> hi"
  shows "for_int mid hi f (for_int lo mid f st) = for_int lo hi f st"
proof (cases "mid = hi")
  case True
  then show ?thesis by (simp add: for_int_empty)
next
  case False
  with assms have "[lo..hi - 1] = [lo..mid - 1] @ [mid..hi - 1]"
    using upto_split1 [of lo mid "hi - 1"] by simp
  then show ?thesis by (simp add: for_int_def)
qed

lemma for_int_nat_induct:
  assumes "P 0 st"
    and "\<And>k st'. k < n \<Longrightarrow> P k st' \<Longrightarrow> P (Suc k) (f (int k) st')"
  shows "P n (for_int 0 (int n) f st)"
  using assms(2)
proof (induction n)
  case 0
  then show ?case using assms(1) by (simp add: for_int_empty)
next
  case (Suc n)
  have "for_int 0 (int (Suc n)) f st = f (int n) (for_int 0 (int n) f st)"
    using for_int_snoc [of 0 "int n" f st] by (simp add: add.commute)
  moreover have "P n (for_int 0 (int n) f st)"
    using Suc by simp
  ultimately show ?case using Suc.prems [of n] by simp
qed

text \<open>A loop that stores a value computed from the index into each element in turn.\<close>

lemma for_int_fill:
  fixes a :: "jsnum list"
  shows "length (for_int 0 (int n) (\<lambda>i a. ta_set a (of_int i) (g i)) a) = length a \<and>
    (\<forall>j < length a. for_int 0 (int n) (\<lambda>i a. ta_set a (of_int i) (g i)) a ! j
        = (if j < n then g (int j) else a ! j))"
  by (rule for_int_nat_induct) (auto simp: ta_set_of_nat nth_list_update less_Suc_eq)


section \<open>The colour weights\<close>

lemma findMinColor_range: "0 \<le> findMinColor prob \<and> findMinColor prob < 64"
proof (cases "find (\<lambda>i. js_lt (ta_get prob (of_int i)) (ta_get prob (of_int (i + 1))) \<and>
                      js_lt (ta_get prob (of_int i)) (ta_get prob (of_int (i - 1)))) [1..63]")
  case None
  then show ?thesis by (simp add: findMinColor_def)
next
  case (Some i)
  then have "i \<in> set [1..63]" by (auto simp: find_Some_iff)
  with Some show ?thesis by (simp add: findMinColor_def)
qed

lemma koef_frac:
  fixes x :: real
  assumes "0 \<le> x"
  shows "0 < 1 / (1 + x)" and "1 / (1 + x) \<le> 1"
proof -
  from assms have pos: "0 < 1 + x" by linarith
  then show "0 < 1 / (1 + x)" by simp
  from assms pos show "1 / (1 + x) \<le> 1" by (simp add: divide_le_eq_1_pos)
qed

lemma koef_unit: "0 \<le> 1 - 1 / (1 + (d::real) powr p) \<and> 1 - 1 / (1 + d powr p) < 1"
  using koef_frac [of "d powr p"] by simp

lemma koef_mono:
  assumes "0 \<le> a" "a \<le> (b::real)" "0 \<le> p"
  shows "1 - 1 / (1 + a powr p) \<le> 1 - 1 / (1 + b powr p)"
proof -
  have le: "a powr p \<le> b powr p" using assms by (intro powr_mono2) auto
  have "0 < 1 + a powr p" using koef_frac(1) [of "a powr p"] by simp
  with le have "1 / (1 + b powr p) \<le> 1 / (1 + a powr p)"
    by (intro divide_left_mono) (auto intro: mult_pos_pos add_pos_nonneg)
  then show ?thesis by linarith
qed

lemma colorKoef_value:
  assumes "0 \<le> d"
  shows "js_sub (Fin 1) (js_div (Fin 1) (js_add (Fin 1) (js_pow (Fin d) p)))
    = Fin (1 - 1 / (1 + d powr p))"
proof -
  have "0 < 1 + d powr p" using koef_frac(1) [of "d powr p"] by simp
  then have "1 + d powr p \<noteq> 0" by linarith
  with assms show ?thesis by (simp add: js_sub_def)
qed

lemma buildColorKoefs_nth:
  assumes "j < length k" "j < 256"
  shows "buildColorKoefs m k ! j = Fin (1 - 1 / (1 + \<bar>real_of_int (int j - m)\<bar> powr 0.3))"
proof -
  define g where "g = (\<lambda>i. js_sub (Fin 1) (js_div (Fin 1) (js_add (Fin 1)
      (js_pow (Fin \<bar>real_of_int (i - m)\<bar>) 0.3))))"
  have "buildColorKoefs m k = for_int 0 (int 256) (\<lambda>i a. ta_set a (of_int i) (g i)) k"
    by (simp add: buildColorKoefs_def AV_NUM_COLORS_def Let_def g_def)
  with for_int_fill [of 256 g k] assms have "buildColorKoefs m k ! j = g (int j)" by simp
  also have "\<dots> = Fin (1 - 1 / (1 + \<bar>real_of_int (int j - m)\<bar> powr 0.3))"
    unfolding g_def by (rule colorKoef_value) simp
  finally show ?thesis .
qed

text \<open>
  Claim C4. After a classification (a call of \<^verbatim>\<open>getHistogram\<close> that returns, on an
  object whose table \<open>m_colorKoefs\<close> has the 256 elements the constructor gives it),
  \<open>m_indexMinColor\<close> is one of the colours 0 to 63, every \<open>m_colorKoefs[i]\<close> is a
  number in \<open>[0, 1)\<close>, the weight at \<open>m_indexMinColor\<close> is 0, and the weights do
  not decrease as the distance \<open>|i - m_indexMinColor|\<close> grows.
\<close>

theorem colorKoefs_after_classification:
  assumes "getHistogram s = Inr (ok, s')" and "length (m_colorKoefs s) = 256"
  shows "0 \<le> m_indexMinColor s' \<and> m_indexMinColor s' < 64 \<and>
    (\<forall>i < 256. \<exists>r. m_colorKoefs s' ! i = Fin r \<and> 0 \<le> r \<and> r < 1) \<and>
    m_colorKoefs s' ! nat (m_indexMinColor s') = Fin 0 \<and>
    (\<forall>i < 256. \<forall>j < 256.
       \<bar>int i - m_indexMinColor s'\<bar> \<le> \<bar>int j - m_indexMinColor s'\<bar> \<longrightarrow>
       js_le (m_colorKoefs s' ! i) (m_colorKoefs s' ! j))"
proof -
  define m where "m = m_indexMinColor s'"
  from getHistogram_koefs [OF assms(1)]
  obtain prob where k: "m_colorKoefs s' = buildColorKoefs m (m_colorKoefs s)"
    and m: "m = findMinColor prob"
    unfolding m_def by auto
  from m findMinColor_range [of prob] have range: "0 \<le> m" "m < 64" by simp_all
  have nth: "m_colorKoefs s' ! j = Fin (1 - 1 / (1 + \<bar>real_of_int (int j - m)\<bar> powr 0.3))"
    if "j < 256" for j
    using buildColorKoefs_nth [of j "m_colorKoefs s" m] that assms(2) k by simp
  have unit: "\<forall>i < 256. \<exists>r. m_colorKoefs s' ! i = Fin r \<and> 0 \<le> r \<and> r < 1"
    using nth koef_unit by blast
  have "nat m < 256" using range by simp
  from nth [OF this] range have zero: "m_colorKoefs s' ! nat m = Fin 0" by simp
  have mono: "js_le (m_colorKoefs s' ! i) (m_colorKoefs s' ! j)"
    if "i < 256" "j < 256" "\<bar>int i - m\<bar> \<le> \<bar>int j - m\<bar>" for i j
  proof -
    from that(3) have "\<bar>real_of_int (int i - m)\<bar> \<le> \<bar>real_of_int (int j - m)\<bar>"
      by linarith
    then show ?thesis
      using nth [OF that(1)] nth [OF that(2)]
        koef_mono [of "\<bar>real_of_int (int i - m)\<bar>" "\<bar>real_of_int (int j - m)\<bar>" "0.3"]
      by simp
  qed
  from range unit zero mono show ?thesis unfolding m_def by blast
qed

lemma getHistogram_ok:
  assumes "\<not> (m_imageGauss s = None \<and> m_xDim s \<noteq> 0)"
  shows "\<exists>s'. getHistogram s = Inr (1, s')"
  using getHistogram_result [OF assms] by blast

theorem colorKoefs_after_classification_witness:
  "\<exists>s'. getHistogram example_engine = Inr (1, s') \<and>
     m_colorKoefs s' ! nat (m_indexMinColor s') = Fin 0 \<and>
     js_le (m_colorKoefs s' ! 0) (m_colorKoefs s' ! 200)"
proof -
  have "\<not> (m_imageGauss example_engine = None \<and> m_xDim example_engine \<noteq> 0)"
    and len: "length (m_colorKoefs example_engine) = 256"
    by (simp_all add: example_engine_def constructor_def)
  from getHistogram_ok [OF this(1)] obtain s' where
    s': "getHistogram example_engine = Inr (1, s')" by blast
  from colorKoefs_after_classification [OF s' len]
  have "0 \<le> m_indexMinColor s'" "m_indexMinColor s' < 64"
    "m_colorKoefs s' ! nat (m_indexMinColor s') = Fin 0"
    "\<bar>int 0 - m_indexMinColor s'\<bar> \<le> \<bar>int 200 - m_indexMinColor s'\<bar>
       \<longrightarrow> js_le (m_colorKoefs s' ! 0) (m_colorKoefs s' ! 200)"
    by simp_all
  with s' show ?thesis by (intro exI [of _ s']) simp
qed

section \<open>The border strips and the scan for the borders\<close>

lemma real_range_empty: "hi \<le> lo \<Longrightarrow> real_range lo hi = []"
  by (simp add: real_range_def)

lemma scanUp_empty: "hi \<le> lo \<Longrightarrow> scanUp lo hi stop = lo"
  by (simp add: scanUp_def real_range_empty)

lemma scanDown_empty: "hi \<le> lo \<Longrightarrow> scanDown hi lo stop = hi"
  by (simp add: scanDown_def)

lemma fold_fixed: "(\<And>x. f x st = st) \<Longrightarrow> fold f xs st = st"
  by (induction xs) simp_all

lemma scanWindow_x:
  "xMin (scanWindow xDim yDim zDim) = of_int xDim" "xMax (scanWindow xDim yDim zDim) = 0"
  by (simp_all add: scanWindow_def RATIO_BORDER_def NUM_20_def NUM_526_def)

lemma findBorders_const:
  assumes "0 \<le> xDim"
  shows "findBorders imageGauss xDim yDim (scanWindow xDim yDim zDim) colBlack = (of_int xDim, 0)"
proof -
  from assms have a: "real_of_int xDim / 2 \<le> real_of_int xDim" "0 \<le> real_of_int xDim / 2"
    by simp_all
  show ?thesis
    unfolding findBorders_def for_real_def Let_def
    by (intro fold_fixed) (simp add: scanWindow_x scanUp_empty [OF a(1)] scanDown_empty [OF a(2)])
qed

text \<open>
  Claim C8 on the code. With \<^verbatim>\<open>NUM_526 = 20.0\<close> the ratio is 1: for a volume 526
  voxels wide the strip bound \<open>xMin\<close> is 526, not 20, and \<open>xMax\<close> is 0, so the left
  and the right strip are both the whole row; the scans for the borders start at
  \<open>xMin\<close> and \<open>xMax\<close>, beyond the middle \<open>w2\<close>, so neither loop runs and the
  result is \<open>(xDim, 0)\<close> whatever the volume and the background level.
\<close>

theorem border_strips_cover_row:
  "xMin (scanWindow 526 yDim zDim) = 526 \<and> xMax (scanWindow 526 yDim zDim) = 0 \<and>
   real_range 0 (xMin (scanWindow 526 yDim zDim))
     = real_range (xMax (scanWindow 526 yDim zDim)) 526 \<and>
   findBorders imageGauss 526 yDim (scanWindow 526 yDim zDim) colBlack = (526, 0)"
  using findBorders_const [of 526 imageGauss yDim zDim colBlack]
  by (simp add: scanWindow_x)


section \<open>The rescaling of the seed mesh\<close>

lemma nth_ta_set_nat:
  "j < length a \<Longrightarrow> ta_set a (real i) x ! j = (if j = i then x else a ! j)"
  by (simp add: ta_set_of_nat nth_list_update)

text \<open>The loop of the rescaling: after \<open>n\<close> vertices the first \<open>4 * n\<close> elements are rescaled, each by the half of its axis, but for every fourth.\<close>

lemma scale_loop:
  fixes v :: "jsnum list" and dx dy dz :: real
  defines "sc \<equiv> (\<lambda>j x. if j mod 4 = 0 then js_add (Fin dx) (js_mul (Fin dx) x)
                     else if j mod 4 = 1 then js_add (Fin dy) (js_mul (Fin dy) x)
                     else if j mod 4 = 2 then js_add (Fin dz) (js_mul (Fin dz) x)
                     else x)"
  defines "body \<equiv> (\<lambda>(i::int) (i4::int, vertices).
             let vertices = ta_set vertices (of_int (i4 + 0))
                   (js_add (Fin dx) (js_mul (Fin dx) (ta_get vertices (of_int (i4 + 0)))));
                 vertices = ta_set vertices (of_int (i4 + 1))
                   (js_add (Fin dy) (js_mul (Fin dy) (ta_get vertices (of_int (i4 + 1)))));
                 vertices = ta_set vertices (of_int (i4 + 2))
                   (js_add (Fin dz) (js_mul (Fin dz) (ta_get vertices (of_int (i4 + 2)))))
             in (i4 + 4, vertices))"
  shows "fst (for_int 0 (int n) body (0, v)) = 4 * int n \<and>
    length (snd (for_int 0 (int n) body (0, v))) = length v \<and>
    (\<forall>j < length v. snd (for_int 0 (int n) body (0, v)) ! j
        = (if j < 4 * n then sc j (v ! j) else v ! j))"
proof (rule for_int_nat_induct [where P = "\<lambda>k st. fst st = 4 * int k \<and>
    length (snd st) = length v \<and>
    (\<forall>j < length v. snd st ! j = (if j < 4 * k then sc j (v ! j) else v ! j))"])
  show "fst (0, v) = 4 * int 0 \<and> length (snd (0, v)) = length v \<and>
    (\<forall>j<length v. snd (0, v) ! j = (if j < 4 * 0 then sc j (v ! j) else v ! j))"
    by simp
next
  fix k :: nat and st :: "int \<times> jsnum list"
  assume "k < n"
    and inv: "fst st = 4 * int k \<and> length (snd st) = length v \<and>
      (\<forall>j<length v. snd st ! j = (if j < 4 * k then sc j (v ! j) else v ! j))"
  obtain i4 w where st: "st = (i4, w)" by (cases st)
  with inv have i4: "i4 = 4 * int k" and len: "length w = length v"
    and w: "\<And>j. j < length v \<Longrightarrow> w ! j = (if j < 4 * k then sc j (v ! j) else v ! j)"
    by simp_all
  define i0 where "i0 = 4 * k"
  define i1 where "i1 = 4 * k + 1"
  define i2 where "i2 = 4 * k + 2"
  have idx: "of_int (4 * int k + 0) = real i0" "of_int (4 * int k + 1) = real i1"
    "of_int (4 * int k + 2) = real i2"
    by (simp_all add: i0_def i1_def i2_def)
  have m: "i0 mod 4 = 0" "i1 mod 4 = 1" "i2 mod 4 = 2"
    unfolding i0_def i1_def i2_def by presburger+
  have ge: "\<not> i0 < 4 * k" "\<not> i1 < 4 * k" "\<not> i2 < 4 * k" "i0 \<noteq> i1" "i0 \<noteq> i2" "i1 \<noteq> i2"
    by (simp_all add: i0_def i1_def i2_def)
  define w1 where "w1 = ta_set w (real i0)
      (js_add (Fin dx) (js_mul (Fin dx) (ta_get w (real i0))))"
  define w2 where "w2 = ta_set w1 (real i1)
      (js_add (Fin dy) (js_mul (Fin dy) (ta_get w1 (real i1))))"
  define w3 where "w3 = ta_set w2 (real i2)
      (js_add (Fin dz) (js_mul (Fin dz) (ta_get w2 (real i2))))"
  have b: "body (int k) st = (4 * int k + 4, w3)"
    unfolding body_def st i4 by (simp only: prod.case Let_def idx w1_def w2_def w3_def)
  have l: "length w1 = length v" "length w2 = length v" "length w3 = length v"
    by (simp_all add: w1_def w2_def w3_def len)
  have n1: "w1 ! j = (if j = i0 then sc j (v ! j) else w ! j)" if "j < length v" for j
    using that w [of j] m ge
    by (auto simp: w1_def nth_ta_set_nat ta_get_of_nat len sc_def)
  have n2: "w2 ! j = (if j = i1 then sc j (v ! j) else w1 ! j)" if "j < length v" for j
    using that n1 [of j] w [of j] m ge
    by (auto simp: w2_def nth_ta_set_nat ta_get_of_nat l sc_def)
  have n3: "w3 ! j = (if j = i2 then sc j (v ! j) else w2 ! j)" if "j < length v" for j
    using that n2 [of j] n1 [of j] w [of j] m ge
    by (auto simp: w3_def nth_ta_set_nat ta_get_of_nat l sc_def)
  have "w3 ! j = (if j < 4 * Suc k then sc j (v ! j) else v ! j)" if "j < length v" for j
  proof -
    consider "j < 4 * k" | "j = i0" | "j = i1" | "j = i2" | "j = 4 * k + 3"
      | "4 * Suc k \<le> j"
      unfolding i0_def i1_def i2_def by fastforce
    then show ?thesis
    proof cases
      case 1
      then have "j \<noteq> i0" "j \<noteq> i1" "j \<noteq> i2" "j < 4 * Suc k"
        by (simp_all add: i0_def i1_def i2_def)
      with 1 that n3 [of j] n2 [of j] n1 [of j] w [of j] show ?thesis by simp
    next
      case 2
      then have "j < 4 * Suc k" by (simp add: i0_def)
      with 2 ge that n3 [of j] n2 [of j] n1 [of j] show ?thesis by simp
    next
      case 3
      then have "j < 4 * Suc k" by (simp add: i1_def)
      with 3 ge that n3 [of j] n2 [of j] show ?thesis by simp
    next
      case 4
      then have "j < 4 * Suc k" by (simp add: i2_def)
      with 4 ge that n3 [of j] show ?thesis by simp
    next
      case 5
      then have "j mod 4 = 3" by presburger
      moreover from 5 have "j \<noteq> i0" "j \<noteq> i1" "j \<noteq> i2" "j < 4 * Suc k" "\<not> j < 4 * k"
        by (simp_all add: i0_def i1_def i2_def)
      ultimately show ?thesis using that n3 [of j] n2 [of j] n1 [of j] w [of j]
        by (simp add: sc_def)
    next
      case 6
      then have "j \<noteq> i0" "j \<noteq> i1" "j \<noteq> i2" "\<not> j < 4 * Suc k" "\<not> j < 4 * k"
        by (simp_all add: i0_def i1_def i2_def)
      then show ?thesis using that n3 [of j] n2 [of j] n1 [of j] w [of j] by simp
    qed
  qed
  with b l show "fst (body (int k) st) = 4 * int (Suc k) \<and>
      length (snd (body (int k) st)) = length v \<and>
      (\<forall>j<length v. snd (body (int k) st) ! j
          = (if j < 4 * Suc k then sc j (v ! j) else v ! j))"
    by simp
qed


text \<open>
  Claim C7, as amended. The driver rescales the x, y and z component of every vertex
  of the seed mesh (every vertex that lies within the vertex array) by
  \<open>v' = (dim - 1) / 2 + ((dim - 1) / 2) * v\<close> with the dimension of its axis, and
  leaves the fourth component and the length of the array as they are.
\<close>

theorem scaleVertices_formula:
  assumes "i < nat (gr_numVertices geo)" and "4 * i + 3 < length (gr_vertices geo)"
  shows "(let v = gr_vertices geo;
              v' = gr_vertices (scaleVertices xDim yDim zDim geo);
              xDim2 = (real_of_int xDim - 1) / 2;
              yDim2 = (real_of_int yDim - 1) / 2;
              zDim2 = (real_of_int zDim - 1) / 2
          in v' ! (4 * i) = js_add (Fin xDim2) (js_mul (Fin xDim2) (v ! (4 * i))) \<and>
             v' ! (4 * i + 1) = js_add (Fin yDim2) (js_mul (Fin yDim2) (v ! (4 * i + 1))) \<and>
             v' ! (4 * i + 2) = js_add (Fin zDim2) (js_mul (Fin zDim2) (v ! (4 * i + 2))) \<and>
             v' ! (4 * i + 3) = v ! (4 * i + 3) \<and>
             length v' = length v)"
proof -
  define n where "n = nat (gr_numVertices geo)"
  with assms(1) have nv: "gr_numVertices geo = int n" and i: "i < n" by simp_all
  define v where "v = gr_vertices geo"
  define dx dy dz where "dx = (real_of_int xDim - 1) / 2" and "dy = (real_of_int yDim - 1) / 2"
    and "dz = (real_of_int zDim - 1) / 2"
  define v' where "v' = gr_vertices (scaleVertices xDim yDim zDim geo)"
  have m: "(4 * i) mod 4 = 0" "(4 * i + 1) mod 4 = 1" "(4 * i + 2) mod 4 = 2"
    "(4 * i + 3) mod 4 = 3"
    by presburger+
  from i have lt: "4 * i < 4 * n" "4 * i + 1 < 4 * n" "4 * i + 2 < 4 * n" "4 * i + 3 < 4 * n"
    by simp_all
  from assms(2) have len: "4 * i < length v" "4 * i + 1 < length v" "4 * i + 2 < length v"
    "4 * i + 3 < length v"
    by (simp_all add: v_def)
  have "v' = snd (for_int 0 (int n) (\<lambda>(i::int) (i4::int, vertices).
             let vertices = ta_set vertices (of_int (i4 + 0))
                   (js_add (Fin dx) (js_mul (Fin dx) (ta_get vertices (of_int (i4 + 0)))));
                 vertices = ta_set vertices (of_int (i4 + 1))
                   (js_add (Fin dy) (js_mul (Fin dy) (ta_get vertices (of_int (i4 + 1)))));
                 vertices = ta_set vertices (of_int (i4 + 2))
                   (js_add (Fin dz) (js_mul (Fin dz) (ta_get vertices (of_int (i4 + 2)))))
             in (i4 + 4, vertices)) (0, v))"
    unfolding v'_def scaleVertices_def nv v_def dx_def dy_def dz_def
    by (simp add: Let_def)
  with scale_loop [of n dx dy dz v]
  have "length v' = length v"
    and "\<And>j. j < length v \<Longrightarrow> v' ! j =
      (if j < 4 * n then
         (if j mod 4 = 0 then js_add (Fin dx) (js_mul (Fin dx) (v ! j))
          else if j mod 4 = 1 then js_add (Fin dy) (js_mul (Fin dy) (v ! j))
          else if j mod 4 = 2 then js_add (Fin dz) (js_mul (Fin dz) (v ! j))
          else v ! j)
       else v ! j)"
    by simp_all
  from this(1) this(2) [OF len(1)] this(2) [OF len(2)] this(2) [OF len(3)] this(2) [OF len(4)]
    m lt
  have "v' ! (4 * i) = js_add (Fin dx) (js_mul (Fin dx) (v ! (4 * i))) \<and>
        v' ! (4 * i + 1) = js_add (Fin dy) (js_mul (Fin dy) (v ! (4 * i + 1))) \<and>
        v' ! (4 * i + 2) = js_add (Fin dz) (js_mul (Fin dz) (v ! (4 * i + 2))) \<and>
        v' ! (4 * i + 3) = v ! (4 * i + 3) \<and> length v' = length v"
    by simp
  then show ?thesis
    unfolding v'_def v_def dx_def dy_def dz_def Let_def .
qed

theorem scaleVertices_formula_witness:
  "gr_vertices (scaleVertices 4 6 8 example_mesh) ! 0 = Fin (9 / 4) \<and>
   gr_vertices (scaleVertices 4 6 8 example_mesh) ! 1 = Fin (5 / 4) \<and>
   gr_vertices (scaleVertices 4 6 8 example_mesh) ! 2 = Fin (7 / 2) \<and>
   gr_vertices (scaleVertices 4 6 8 example_mesh) ! 3 = Fin 1"
proof -
  have a: "0 < nat (gr_numVertices example_mesh)"
    "4 * 0 + 3 < length (gr_vertices example_mesh)"
    and v: "gr_vertices example_mesh = [Fin (1 / 2), Fin (- 1 / 2), Fin 0, Fin 1]"
    by (simp_all add: example_mesh_def)
  from scaleVertices_formula [OF a, of 4 6 8] show ?thesis
    unfolding Let_def v by (simp add: numeral_2_eq_2 numeral_3_eq_3)
qed

text \<open>
  The claim as stated fails: for \<open>xDim = 4\<close> the x component \<open>1/2\<close> of the example
  vertex becomes \<open>3/2 + 3/2 * 1/2 = 9/4\<close>, not \<open>4/2 + 4/2 * 1/2 = 3\<close>.
\<close>

theorem scaleVertices_not_half_dimension:
  "gr_vertices (scaleVertices 4 6 8 example_mesh) ! 0 = Fin (9 / 4) \<and>
   js_add (Fin (4 / 2)) (js_mul (Fin (4 / 2)) (gr_vertices example_mesh ! 0)) = Fin 3 \<and>
   gr_vertices (scaleVertices 4 6 8 example_mesh) ! 0
     \<noteq> js_add (Fin (4 / 2)) (js_mul (Fin (4 / 2)) (gr_vertices example_mesh ! 0))"
proof -
  have "gr_vertices (scaleVertices 4 6 8 example_mesh) ! 0 = Fin (9 / 4)"
    by (simp add: scaleVertices_def example_mesh_def Let_def for_int_def ta_set_def ta_get_def
        is_index_def)
  then show ?thesis by (simp add: example_mesh_def)
qed

section \<open>Smoothing band by band\<close>

lemma band_ranges:
  fixes k Z rad :: int
  assumes "0 < k" "k < Z"
  defines "zs1 \<equiv> (if 0 > rad then 0 else rad)"
  defines "ze1 \<equiv> (if k < Z - rad then k else Z - rad)"
  defines "zs2 \<equiv> (if k > rad then k else rad)"
  defines "ze2 \<equiv> (if Z < Z - rad then Z else Z - rad)"
  shows "for_int zs2 ze2 f (for_int zs1 ze1 f a) = for_int zs1 ze2 f a"
    and "zs1 < ze2 \<longleftrightarrow> zs1 < ze1 \<or> zs2 < ze2"
proof -
  consider (first_empty) "ze1 \<le> zs1" | (second_empty) "zs1 < ze1" "ze2 \<le> zs2"
    | (both) "zs1 < ze1" "zs2 < ze2"
    by linarith
  then show "for_int zs2 ze2 f (for_int zs1 ze1 f a) = for_int zs1 ze2 f a"
  proof cases
    case first_empty
    then have "zs2 = zs1 \<or> (ze2 \<le> zs2 \<and> ze2 \<le> zs1)"
      using assms(1,2) unfolding zs1_def ze1_def zs2_def ze2_def by (auto split: if_splits)
    with first_empty show ?thesis by (auto simp: for_int_empty)
  next
    case second_empty
    then have "ze1 = ze2 \<or> (ze1 \<le> zs1 \<and> ze2 \<le> zs1)"
      using assms(1,2) unfolding zs1_def ze1_def zs2_def ze2_def by (auto split: if_splits)
    with second_empty show ?thesis by (auto simp: for_int_empty)
  next
    case both
    then have "ze1 = zs2"
      using assms(1,2) unfolding zs1_def ze1_def zs2_def ze2_def by (auto split: if_splits)
    with both show ?thesis using for_int_split [of zs1 zs2 ze2 f a] by simp
  qed
  show "zs1 < ze2 \<longleftrightarrow> zs1 < ze1 \<or> zs2 < ze2"
    using assms(1,2) unfolding zs1_def ze1_def zs2_def ze2_def by (auto split: if_splits)
qed


lemma gaussConvolve_bands:
  "gaussConvolve zStart zEnd rad s =
     (let zs = (if zStart > rad then zStart else rad);
          ze = (if zEnd < m_zDim s - rad then zEnd else m_zDim s - rad)
      in if zs < ze \<and> band_throws rad s then Inl TypeError
         else Inr (s\<lparr>m_imageGauss :=
                map_option (for_int zs ze (band_slice rad s)) (m_imageGauss s)\<rparr>))"
  unfolding gaussConvolve_def band_throws_def band_slice_def Let_def
  by (simp add: conj_assoc)

lemma band_throws_after_band:
  "band_throws rad (s\<lparr>m_imageGauss := map_option f (m_imageGauss s)\<rparr>) = band_throws rad s"
  by (simp add: band_throws_def)

lemma band_slice_after_band:
  "band_slice rad (s\<lparr>m_imageGauss := img\<rparr>) = band_slice rad s"
  by (rule ext) (simp add: band_slice_def)

lemmas band_after_band = band_throws_after_band band_slice_after_band

lemma applyPartGaussSmooth_later:
  "k \<noteq> 0 \<Longrightarrow> applyPartGaussSmooth k zEnd rad sigma = gaussConvolve k zEnd rad"
  by (rule ext) (simp add: applyPartGaussSmooth_def)

lemma gaussConvolve_partition:
  assumes "0 < k" "k < m_zDim s"
  shows "bind_res (gaussConvolve 0 k rad s) (gaussConvolve k (m_zDim s) rad)
    = gaussConvolve 0 (m_zDim s) rad s"
proof -
  define zs1 where "zs1 = (if 0 > rad then 0 else rad)"
  define ze1 where "ze1 = (if k < m_zDim s - rad then k else m_zDim s - rad)"
  define zs2 where "zs2 = (if k > rad then k else rad)"
  define ze2 where "ze2 = (if m_zDim s < m_zDim s - rad then m_zDim s else m_zDim s - rad)"
  note r = band_ranges [OF assms, of rad, folded zs1_def ze1_def zs2_def ze2_def]
  have first: "gaussConvolve 0 k rad s =
      (if zs1 < ze1 \<and> band_throws rad s then Inl TypeError
       else Inr (s\<lparr>m_imageGauss :=
              map_option (for_int zs1 ze1 (band_slice rad s)) (m_imageGauss s)\<rparr>))"
    by (simp add: gaussConvolve_bands zs1_def ze1_def Let_def)
  have second: "gaussConvolve k (m_zDim s) rad
        (s\<lparr>m_imageGauss := map_option g (m_imageGauss s)\<rparr>) =
      (if zs2 < ze2 \<and> band_throws rad s then Inl TypeError
       else Inr (s\<lparr>m_imageGauss :=
              map_option (for_int zs2 ze2 (band_slice rad s))
                (map_option g (m_imageGauss s))\<rparr>))" for g
    by (simp add: gaussConvolve_bands zs2_def ze2_def Let_def band_after_band)
  have whole: "gaussConvolve 0 (m_zDim s) rad s =
      (if zs1 < ze2 \<and> band_throws rad s then Inl TypeError
       else Inr (s\<lparr>m_imageGauss :=
              map_option (for_int zs1 ze2 (band_slice rad s)) (m_imageGauss s)\<rparr>))"
    by (simp add: gaussConvolve_bands zs1_def ze2_def Let_def)
  have join: "map_option (for_int zs2 ze2 (band_slice rad s))
        (map_option (for_int zs1 ze1 (band_slice rad s)) (m_imageGauss s))
      = map_option (for_int zs1 ze2 (band_slice rad s)) (m_imageGauss s)"
    by (cases "m_imageGauss s") (simp_all add: r(1))
  show ?thesis
  proof (cases "band_throws rad s")
    case True
    with r(2) show ?thesis by (auto simp: first second whole join)
  next
    case False
    then show ?thesis by (simp add: first second whole join)
  qed
qed

text \<open>
  Claim C5. For every object, radius and sigma and every \<open>0 < k < zDim\<close>, smoothing
  the band \<open>[0, k)\<close> and then the band \<open>[k, zDim)\<close> gives exactly what smoothing
  \<open>[0, zDim)\<close> in one call gives: the same smoothed volume (the same object
  altogether), or the same TypeError when a buffer is missing.
\<close>

theorem gauss_band_partition:
  assumes "0 < k" "k < m_zDim s"
  shows "bind_res (applyPartGaussSmooth 0 k rad sigma s)
           (applyPartGaussSmooth k (m_zDim s) rad sigma)
         = applyPartGaussSmooth 0 (m_zDim s) rad sigma s"
proof (cases "gaussInit rad sigma s")
  case (Inl e)
  then show ?thesis by (simp add: applyPartGaussSmooth_def)
next
  case (Inr s1)
  from gaussInit_frame [OF Inr] have z: "m_zDim s1 = m_zDim s" by simp
  from assms have "k \<noteq> 0" by simp
  have "bind_res (applyPartGaussSmooth 0 k rad sigma s)
           (applyPartGaussSmooth k (m_zDim s) rad sigma)
        = bind_res (gaussConvolve 0 k rad s1) (gaussConvolve k (m_zDim s1) rad)"
    using Inr z by (simp add: applyPartGaussSmooth_later [OF \<open>k \<noteq> 0\<close>])
      (simp add: applyPartGaussSmooth_def)
  also have "\<dots> = gaussConvolve 0 (m_zDim s1) rad s1"
    using assms z by (intro gaussConvolve_partition) simp_all
  also have "\<dots> = applyPartGaussSmooth 0 (m_zDim s) rad sigma s"
    using Inr z by (simp add: applyPartGaussSmooth_def)
  finally show ?thesis .
qed


theorem gauss_band_partition_witness:
  "bind_res (applyPartGaussSmooth 0 3 2 1.8 example_smoothing_engine)
     (applyPartGaussSmooth 3 6 2 1.8)
   = applyPartGaussSmooth 0 6 2 1.8 example_smoothing_engine \<and>
   (\<exists>s'. applyPartGaussSmooth 0 6 2 1.8 example_smoothing_engine = Inr s')"
proof -
  have z: "m_zDim example_smoothing_engine = 6"
    and b: "m_imageSrc example_smoothing_engine \<noteq> None"
      "m_imageGauss example_smoothing_engine \<noteq> None"
      "m_pixelsSrc example_smoothing_engine \<noteq> None"
    by (simp_all add: example_smoothing_engine_def)
  have "\<exists>s'. applyPartGaussSmooth 0 6 2 1.8 example_smoothing_engine = Inr s'"
    using applyPartGaussSmooth_ok [OF b, of 0 6 2 "1.8"] by blast
  moreover have "bind_res (applyPartGaussSmooth 0 3 2 1.8 example_smoothing_engine)
     (applyPartGaussSmooth 3 6 2 1.8)
   = applyPartGaussSmooth 0 6 2 1.8 example_smoothing_engine"
    using gauss_band_partition [of 3 example_smoothing_engine 2 "1.8"] unfolding z by simp
  ultimately show ?thesis by blast
qed

section \<open>The histogram of the restricted pass\<close>

lemma int32_small: "- (2 ^ 31) \<le> n \<Longrightarrow> n < 2 ^ 31 \<Longrightarrow> int32 n = n"
  by (simp add: int32_def)

lemma i32_set_of_nat: "i32_set h (real j) v = (if j < length h then h[j := int32 v] else h)"
  by (simp add: i32_set_def is_index_of_nat)

lemma clearHistogram_nth:
  "length (clearHistogram h) = length h \<and>
   (\<forall>j < length h. clearHistogram h ! j = (if j < 256 then 0 else h ! j))"
proof -
  have "length (for_int 0 (int 256) (\<lambda>i h. i32_set h (of_int i) 0) h) = length h \<and>
    (\<forall>j < length h. for_int 0 (int 256) (\<lambda>i h. i32_set h (of_int i) 0) h ! j
        = (if j < 256 then 0 else h ! j))"
    by (rule for_int_nat_induct)
      (auto simp: i32_set_of_nat nth_list_update less_Suc_eq int32_def)
  then show ?thesis by (simp add: clearHistogram_def AV_NUM_COLORS_def)
qed

lemma clearHistogram_256: "length h = 256 \<Longrightarrow> clearHistogram h = replicate 256 0"
  using clearHistogram_nth [of h] by (auto simp: list_eq_iff_nth_eq)

lemma fold_steps:
  assumes "\<And>x c. x \<in> set xs \<Longrightarrow> c < length xs \<Longrightarrow> f x (g c) = g (Suc c)"
  shows "fold f xs (g 0) = g (length xs)"
  using assms
proof (induction xs arbitrary: g)
  case Nil
  then show ?case by simp
next
  case (Cons x xs)
  have "f x (g 0) = g (Suc 0)" using Cons.prems [of x 0] by simp
  moreover have "fold f xs ((g \<circ> Suc) 0) = (g \<circ> Suc) (length xs)"
    by (rule Cons.IH) (use Cons.prems in auto)
  ultimately show ?case by simp
qed

lemma real_range_set: "x \<in> set (real_range lo hi) \<longleftrightarrow> (\<exists>k < nat \<lceil>hi - lo\<rceil>. x = lo + real k)"
  by (auto simp: real_range_def)

lemma length_real_range: "length (real_range lo hi) = nat \<lceil>hi - lo\<rceil>"
  by (simp add: real_range_def)

text \<open>
  The loop over the left band counts a sample in \<open>numPixHist\<close> and leaves the histogram
  as it is whenever the value read is no element index (it is not floored); the loop
  over the right band counts the floor of the value.
\<close>

lemma left_band_loop:
  assumes "\<And>x. x \<in> set xs \<Longrightarrow> ta_get img (x + yOff + zOff) = Fin v"
    and "\<not> is_index v (length h)"
  shows "fold (\<lambda>x (h, numPixHist).
            let off = x + yOff + zOff; val = ta_get img off
            in (hist_inc h val, numPixHist + 1)) xs (h, n)
         = (h, n + int (length xs))"
  using assms
proof (induction xs arbitrary: n)
  case Nil
  then show ?case by simp
next
  case (Cons x xs)
  from Cons.prems have "hist_inc h (ta_get img (x + yOff + zOff)) = h"
    by (simp add: hist_inc_def)
  with Cons.IH [of "n + 1"] Cons.prems show ?case by (simp add: Let_def)
qed

lemma right_band_loop:
  assumes "\<And>x. x \<in> set xs \<Longrightarrow> js_floor (ta_get img (x + yOff + zOff)) = Fin (real b)"
    and "b < length h" "0 \<le> h ! b" "h ! b + int (length xs) < 2 ^ 31"
  shows "fold (\<lambda>x (h, numPixHist).
            let off = x + yOff + zOff; val = js_floor (ta_get img off)
            in (hist_inc h val, numPixHist + 1)) xs (h, n)
         = (h[b := h ! b + int (length xs)], n + int (length xs))"
  using assms
proof (induction xs arbitrary: h n)
  case Nil
  then show ?case by simp
next
  case (Cons x xs)
  define h1 where "h1 = h[b := h ! b + 1]"
  from Cons.prems have "int32 (h ! b + 1) = h ! b + 1" by (intro int32_small) simp_all
  with Cons.prems have step: "hist_inc h (js_floor (ta_get img (x + yOff + zOff))) = h1"
    by (simp add: hist_inc_def is_index_of_nat i32_set_of_nat h1_def)
  have h1: "b < length h1" "h1 ! b = h ! b + 1" using Cons.prems by (simp_all add: h1_def)
  have "fold (\<lambda>x (h, numPixHist).
            let off = x + yOff + zOff; val = js_floor (ta_get img off)
            in (hist_inc h val, numPixHist + 1)) xs (h1, n + 1)
         = (h1[b := h1 ! b + int (length xs)], n + 1 + int (length xs))"
    by (rule Cons.IH) (use Cons.prems h1 in auto)
  with step h1 show ?case by (simp add: Let_def h1_def add.assoc)
qed


text \<open>The restricted pass on the example: 64 rows, each with 5 samples for either band.\<close>

lemma replicate_update_same: "(replicate n x)[i := x] = replicate n x"
  by (cases "i < n") (simp_all add: list_update_same_conv list_update_beyond)

lemma example_row:
  fixes i j :: nat and a n :: int
  assumes "i < 8" "j < 8" "0 \<le> a" "a \<le> 1000"
  defines "img \<equiv> replicate 6400 (Fin (1 / 2))"
  defines "zOff \<equiv> (1 + real i) * 640"
  defines "yOff \<equiv> (1 + real j) * 64"
  shows "bandRow img yOff zOff 64 69 (- 5) 0 ((replicate 256 0)[0 := a], n)
         = ((replicate 256 0)[0 := a + 5], n + 10)"
proof -
  have rdL: "ta_get img (64 + real k + yOff + zOff) = Fin (1 / 2)" if "k < 5" for k
  proof -
    have "64 + real k + yOff + zOff = real (768 + k + 64 * j + 640 * i)"
      by (simp add: yOff_def zOff_def)
    moreover have "768 + k + 64 * j + 640 * i < 6400"
      using assms(1,2) that by simp
    ultimately show ?thesis
      by (simp add: ta_get_of_nat img_def del: of_nat_add of_nat_mult)
  qed
  have rdR: "ta_get img (real k - 5 + yOff + zOff) = Fin (1 / 2)" if "k < 5" for k
  proof -
    have "real k - 5 + yOff + zOff = real (699 + k + 64 * j + 640 * i)"
      by (simp add: yOff_def zOff_def)
    moreover have "699 + k + 64 * j + 640 * i < 6400"
      using assms(1,2) that by simp
    ultimately show ?thesis
      by (simp add: ta_get_of_nat img_def del: of_nat_add of_nat_mult)
  qed
  have half: "\<not> is_index (1 / 2) m" for m by (simp add: is_index_def)
  have left: "for_real 64 69 (\<lambda>x (h, numPixHist).
            (hist_inc h (ta_get img (x + yOff + zOff)), numPixHist + 1))
            ((replicate 256 0)[0 := a], n)
         = ((replicate 256 0)[0 := a], n + 5)"
    unfolding for_real_def
    by (subst left_band_loop [unfolded Let_def, where v = "1 / 2"])
      (auto simp: real_range_set length_real_range rdL half)
  have right: "for_real (- 5) 0 (\<lambda>x (h, numPixHist).
            (hist_inc h (js_floor (ta_get img (x + yOff + zOff))), numPixHist + 1))
            ((replicate 256 0)[0 := a], n + 5)
         = (((replicate 256 0)[0 := a])[0 := (replicate 256 0)[0 := a] ! 0 + int 5], n + 5 + int 5)"
    unfolding for_real_def
    by (subst right_band_loop [unfolded Let_def, where b = 0])
      (use assms(3,4) in \<open>auto simp: real_range_set length_real_range rdR\<close>)
  show ?thesis unfolding bandRow_def Let_def left right by simp
qed

lemma example_slice:
  fixes i :: nat and c :: nat
  assumes "i < 8" "c < 8"
  shows "for_real 1 9 (\<lambda>y. bandRow (replicate 6400 (Fin (1 / 2))) (y * 64) ((1 + real i) * 640)
            64 69 (- 5) 0) ((replicate 256 0)[0 := 40 * int c], 80 * int c)
         = ((replicate 256 0)[0 := 40 * int (Suc c)], 80 * int (Suc c))"
proof -
  define g where "g d = ((replicate 256 (0::int))[0 := 40 * int c + 5 * int d],
      80 * int c + 10 * int d)" for d
  have "fold (\<lambda>y. bandRow (replicate 6400 (Fin (1 / 2))) (y * 64) ((1 + real i) * 640)
            64 69 (- 5) 0) (real_range 1 9) (g 0) = g (length (real_range 1 9))"
  proof (rule fold_steps)
    fix y :: real and d :: nat
    assume "y \<in> set (real_range 1 9)" "d < length (real_range 1 9)"
    then obtain j where j: "j < 8" "y = 1 + real j" and d: "d < 8"
      by (auto simp: real_range_set length_real_range)
    from assms d have "0 \<le> 40 * int c + 5 * int d" "40 * int c + 5 * int d \<le> 1000"
      by simp_all
    from example_row [OF assms(1) j(1) this, of "80 * int c + 10 * int d"]
    show "bandRow (replicate 6400 (Fin (1 / 2))) (y * 64) ((1 + real i) * 640)
            64 69 (- 5) 0 (g d) = g (Suc d)"
      by (simp add: g_def j(2) algebra_simps)
  qed
  then show ?thesis by (simp add: for_real_def g_def length_real_range algebra_simps)
qed

lemma example_band:
  "bandHistogram (replicate 6400 (Fin (1 / 2))) 64 10 (scanWindow 64 10 10) 64 69 (- 5) 0
     (replicate 256 0) = ((replicate 256 0)[0 := 320], 640)"
proof -
  define g where "g c = ((replicate 256 (0::int))[0 := 40 * int c], 80 * int c)" for c
  define f where "f = (\<lambda>z. for_real 1 9
      (\<lambda>y. bandRow (replicate 6400 (Fin (1 / 2))) (y * 64) (z * 64 * 10) 64 69 (- 5) 0))"
  have "bandHistogram (replicate 6400 (Fin (1 / 2))) 64 10 (scanWindow 64 10 10) 64 69 (- 5) 0
     (replicate 256 0) = fold f (real_range 1 9) (replicate 256 0, 0)"
    by (simp add: bandHistogram_def for_real_def scanWindow_def SCAN_RANGE_def Let_def f_def)
  also have "(replicate 256 0, 0) = g 0"
    by (simp add: g_def replicate_update_same)
  also have "fold f (real_range 1 9) (g 0) = g (length (real_range 1 9))"
  proof (rule fold_steps)
    fix z :: real and c :: nat
    assume "z \<in> set (real_range 1 9)" "c < length (real_range 1 9)"
    then obtain i where i: "i < 8" "z = 1 + real i" and c: "c < 8"
      by (auto simp: real_range_set length_real_range)
    have "(1 + real i) * 64 * 10 = (1 + real i) * 640" by simp
    with example_slice [OF i(1) c]
    show "f z (g c) = g (Suc c)"
      unfolding f_def g_def i(2) by (simp only:)
  qed
  also have "g (length (real_range 1 9)) = ((replicate 256 0)[0 := 320], 640)"
    by (simp add: g_def length_real_range)
  finally show ?thesis .
qed

lemma sum_list_update_int:
  fixes xs :: "int list"
  shows "k < length xs \<Longrightarrow> sum_list (xs[k := x]) = sum_list xs + x - xs ! k"
  by (induction xs arbitrary: k) (auto split: nat.splits)


lemma sum_list_replicate_zero: "sum_list (replicate n (0::int)) = 0"
  by (induction n) simp_all

lemma length_hist_inc [simp]: "length (hist_inc h v) = length h"
  by (cases v) (simp_all add: hist_inc_def i32_set_def)

lemma length_fold_same:
  "(\<And>x h. length (f x h) = length h) \<Longrightarrow> length (fold f xs h) = length (h :: 'b list)"
  by (induction xs arbitrary: h) simp_all

lemma length_fullHistogram [simp]: "length (fullHistogram img n h) = length h"
  unfolding fullHistogram_def for_int_def Let_def by (rule length_fold_same) simp

lemma nth_le_sum_list_int:
  fixes h :: "int list"
  assumes "\<forall>x \<in> set h. 0 \<le> x" "b < length h"
  shows "h ! b \<le> sum_list h"
  using assms
proof (induction h arbitrary: b)
  case Nil
  then show ?case by simp
next
  case (Cons x h)
  have "0 \<le> sum_list h" using Cons.prems(1) by (intro sum_list_nonneg) simp
  show ?case
  proof (cases b)
    case 0
    with \<open>0 \<le> sum_list h\<close> show ?thesis by simp
  next
    case (Suc b')
    with Cons.IH [of b'] Cons.prems have "h ! b' \<le> sum_list h" by simp
    with Suc Cons.prems(1) show ?thesis by simp
  qed
qed

text \<open>
  The value the full pass counts for a voxel that is not negative: an integer from 0
  to 255 (NaN and \<open>+\<infinity>\<close> fail the test \<^verbatim>\<open>val < MAX_COLOR\<close> and count as 255), or
  the negative zero, which is counted in bin 0.
\<close>

lemma hist_inc_NZero: "hist_inc h NZero = hist_inc h (Fin 0)"
  by (simp add: hist_inc_def)

lemma full_pass_value:
  assumes "\<not> js_lt v (Fin 0)" "v \<noteq> NZero"
  shows "\<exists>b < 256. (if js_lt (js_floor v) (Fin 255) then js_floor v else Fin 255) = Fin (real b)"
proof (cases v)
  case NZero
  with assms show ?thesis by simp
next
  case (Fin a)
  with assms have a: "0 \<le> a" by simp
  show ?thesis
  proof (cases "\<lfloor>a\<rfloor> < 255")
    case True
    from a have f0: "0 \<le> \<lfloor>a\<rfloor>" by simp
    with True have b: "nat \<lfloor>a\<rfloor> < 256" by linarith
    from f0 have "real (nat \<lfloor>a\<rfloor>) = of_int \<lfloor>a\<rfloor>" by (rule of_nat_nat)
    with Fin have fl: "js_floor v = Fin (real (nat \<lfloor>a\<rfloor>))" by simp
    from True have "real_of_int \<lfloor>a\<rfloor> < 255" by linarith
    with Fin have lt: "js_lt (js_floor v) (Fin 255)" by simp
    show ?thesis
    proof (intro exI conjI)
      show "nat \<lfloor>a\<rfloor> < 256" by (fact b)
      show "(if js_lt (js_floor v) (Fin 255) then js_floor v else Fin 255)
          = Fin (real (nat \<lfloor>a\<rfloor>))"
        using lt fl by (simp only: if_True)
    qed
  next
    case False
    then have "\<not> real_of_int \<lfloor>a\<rfloor> < 255" by linarith
    with Fin show ?thesis by (intro exI [of _ 255]) simp
  qed
next
  case PInf
  then show ?thesis by (intro exI [of _ 255]) simp
next
  case NInf
  with assms show ?thesis by simp
next
  case NaN
  then show ?thesis by (intro exI [of _ 255]) simp
qed

lemma full_pass_bin:
  assumes "\<not> js_lt v (Fin 0)"
  shows "\<exists>b < 256. hist_inc h (if js_lt (js_floor v) (Fin 255) then js_floor v else Fin 255)
     = hist_inc h (Fin (real b))"
proof (cases "v = NZero")
  case True
  then show ?thesis by (intro exI [of _ 0]) (simp add: hist_inc_NZero)
next
  case False
  with full_pass_value [OF assms] show ?thesis by auto
qed

text \<open>
  The full pass keeps the invariant: on a cleared histogram of 256 bins, for a volume
  without negative samples and with fewer than \<open>2\<^sup>3\<^sup>1\<close> voxels, the counts sum to
  the number of voxels sampled.
\<close>

lemma fullHistogram_sum:
  assumes len: "length h = 256" and zero: "\<forall>x \<in> set h. x = 0"
    and n: "n \<le> length img" "n < 2 ^ 31"
    and nonneg: "\<forall>v \<in> set img. \<not> js_lt v (Fin 0)"
  shows "sum_list (fullHistogram img (int n) h) = int n"
proof -
  define step where "step = (\<lambda>(i::int) h.
      let val = js_floor (ta_get img (of_int i));
          val = (if js_lt val (Fin (of_int (AV_NUM_COLORS - 1))) then val
                 else Fin (of_int (AV_NUM_COLORS - 1)))
      in hist_inc h val)"
  have "length (for_int 0 (int n) step h) = 256 \<and>
      (\<forall>x \<in> set (for_int 0 (int n) step h). 0 \<le> x) \<and>
      sum_list (for_int 0 (int n) step h) = int n"
  proof (rule for_int_nat_induct [where P = "\<lambda>k h. length h = 256 \<and> (\<forall>x \<in> set h. 0 \<le> x) \<and>
      sum_list h = int k"])
    from zero have "sum_list h = 0" by (induction h) simp_all
    with len zero show "length h = 256 \<and> (\<forall>x\<in>set h. 0 \<le> x) \<and> sum_list h = int 0"
      by auto
  next
    fix k :: nat and h' :: "int list"
    assume k: "k < n" and inv: "length h' = 256 \<and> (\<forall>x\<in>set h'. 0 \<le> x) \<and> sum_list h' = int k"
    from k n have "img ! k \<in> set img" "ta_get img (real k) = img ! k"
      by (simp_all add: ta_get_of_nat)
    with nonneg have "\<not> js_lt (ta_get img (real k)) (Fin 0)" by simp
    from full_pass_bin [OF this, of h'] obtain b where b: "b < 256"
      "hist_inc h' (if js_lt (js_floor (ta_get img (real k))) (Fin 255)
        then js_floor (ta_get img (real k)) else Fin 255) = hist_inc h' (Fin (real b))"
      by blast
    from inv b(1) have le: "h' ! b \<le> int k" "0 \<le> h' ! b"
      using nth_le_sum_list_int [of h' b] by simp_all
    with k n have "int32 (h' ! b + 1) = h' ! b + 1" by (intro int32_small) simp_all
    have c: "Fin (of_int (AV_NUM_COLORS - 1)) = Fin 255" by (simp add: AV_NUM_COLORS_def)
    have "step (int k) h' = hist_inc h'
        (if js_lt (js_floor (ta_get img (real k))) (Fin 255)
         then js_floor (ta_get img (real k)) else Fin 255)"
      by (simp only: step_def Let_def c of_int_of_nat_eq)
    also have "\<dots> = hist_inc h' (Fin (real b))" by (fact b(2))
    also have "\<dots> = h'[b := h' ! b + 1]"
      using b(1) inv \<open>int32 (h' ! b + 1) = h' ! b + 1\<close>
      by (simp add: hist_inc_def is_index_of_nat i32_set_of_nat)
    finally have st: "step (int k) h' = h'[b := h' ! b + 1]" .
    have "\<forall>x \<in> set (h'[b := h' ! b + 1]). 0 \<le> x"
      using inv le(2) by (auto dest!: set_update_subset_insert [THEN subsetD])
    moreover have "sum_list (h'[b := h' ! b + 1]) = int (Suc k)"
      using inv b(1) by (simp add: sum_list_update_int)
    ultimately show "length (step (int k) h') = 256 \<and> (\<forall>x\<in>set (step (int k) h'). 0 \<le> x) \<and>
        sum_list (step (int k) h') = int (Suc k)"
      using inv st by simp
  qed
  then show ?thesis by (simp add: fullHistogram_def step_def)
qed

lemma example_restricted:
  assumes "length h = 256"
  shows "restrictedHistogram (replicate 6400 (Fin (1 / 2))) 64 10 10 h
    = ((replicate 256 0)[0 := 320], 640)"
proof -
  have "restrictedHistogram (replicate 6400 (Fin (1 / 2))) 64 10 10 h
    = bandHistogram (replicate 6400 (Fin (1 / 2))) 64 10 (scanWindow 64 10 10) 64 69 (- 5) 0
        (clearHistogram h)"
    using findBorders_const [of 64 "replicate 6400 (Fin (1 / 2))" 10 10]
    by (simp add: restrictedHistogram_def Let_def VAL_BORDER_ADD_def)
  with assms show ?thesis by (simp add: clearHistogram_256 example_band)
qed

text \<open>
  Claim C3 on the code. On the example object (a volume of \<open>64 * 10 * 10\<close> voxels
  whose smoothed samples are all \<open>1/2\<close>) every offset of the restricted pass is an
  integer within the volume, and the pass samples 640 voxels (\<open>numPixHist\<close>): 320
  in the left band, which are counted in no bin because their value is not floored,
  and 320 in the right band, counted in bin 0. The histogram that \<^verbatim>\<open>getHistogram\<close>
  leaves sums to 320, not to 640.
\<close>

theorem restricted_pass_loses_samples:
  "map_sum id (\<lambda>(ok, s'). sum_list (m_histogram s')) (getHistogram example_classifier_engine)
     = Inr 320 \<and>
   snd (restrictedHistogram (replicate 6400 (Fin (1 / 2))) 64 10 10 (replicate 256 0)) = 640"
proof -
  have ok: "\<not> (m_imageGauss example_classifier_engine = None \<and>
      m_xDim example_classifier_engine \<noteq> 0)"
    by (simp add: example_classifier_engine_def)
  have f: "m_imageGauss example_classifier_engine = Some (replicate 6400 (Fin (1 / 2)))"
    "m_xDim example_classifier_engine = 64" "m_yDim example_classifier_engine = 10"
    "m_zDim example_classifier_engine = 10" "length (m_histogram example_classifier_engine) = 256"
    by (simp_all add: example_classifier_engine_def constructor_def)
  from getHistogram_result [OF ok] obtain s' where
    s': "getHistogram example_classifier_engine = Inr (1, s')"
    and h: "m_histogram s' = fst (restrictedHistogram (replicate 6400 (Fin (1 / 2))) 64 10 10
        (fullHistogram (replicate 6400 (Fin (1 / 2))) (64 * 10 * 10)
          (clearHistogram (m_histogram example_classifier_engine))))"
    unfolding f by auto
  have "length (fullHistogram (replicate 6400 (Fin (1 / 2))) (64 * 10 * 10)
          (clearHistogram (m_histogram example_classifier_engine))) = 256"
    using clearHistogram_nth [of "m_histogram example_classifier_engine"] f(5) by simp
  from example_restricted [OF this] h
  have "m_histogram s' = (replicate 256 0)[0 := 320]" by simp
  then have "sum_list (m_histogram s') = 320"
    by (simp add: sum_list_update_int sum_list_replicate_zero)
  with s' show ?thesis by (simp add: example_restricted)
qed

end
